theory Spec2Isabelle
  imports Main
begin

section \<open>Python values\<close>

text \<open>
  A Python \<^verbatim>\<open>str\<close> is a \<^typ>\<open>string\<close> holding its UTF-8 bytes, so that the accented
  letters of the messages are two characters each. The separators the code looks for
  (\<^verbatim>\<open>.\<close> and \<^verbatim>\<open>/\<close>) are ASCII and never occur inside a multi-byte sequence, so
  searching bytes and searching code points find the same places.
\<close>

definition o_acute :: string where
  "o_acute = [CHR 0xC3, CHR 0xB3]"

definition a_acute :: string where
  "a_acute = [CHR 0xC3, CHR 0xA1]"

definition n_tilde :: string where
  "n_tilde = [CHR 0xC3, CHR 0xB1]"

definition quote :: string where
  "quote = [CHR 0x27]"

text \<open>\<^verbatim>\<open>str(n)\<close> for a Python int: decimal digits, with a minus sign below zero.\<close>

definition digit_char :: "nat \<Rightarrow> char" where
  "digit_char d = char_of (48 + d)"

function str_nat :: "nat \<Rightarrow> string" where
  "str_nat n = (if n < 10 then [digit_char n] else str_nat (n div 10) @ [digit_char (n mod 10)])"
  by pat_completeness auto
termination
  by (relation "measure (\<lambda>n. n)") auto

declare str_nat.simps [simp del]

definition str_int :: "int \<Rightarrow> string" where
  "str_int i = (if i < 0 then ''-'' @ str_nat (nat (- i)) else str_nat (nat i))"

text \<open>\<^verbatim>\<open>s.rfind(c)\<close>: the index of the last occurrence of \<open>c\<close>, or \<open>-1\<close>.\<close>

primrec rfind_aux :: "char \<Rightarrow> string \<Rightarrow> int \<Rightarrow> int \<Rightarrow> int" where
  "rfind_aux c [] i acc = acc"
| "rfind_aux c (x # xs) i acc = rfind_aux c xs (i + 1) (if x = c then i else acc)"

definition rfind :: "char \<Rightarrow> string \<Rightarrow> int" where
  "rfind c p = rfind_aux c p 0 (- 1)"

text \<open>
  \<^verbatim>\<open>os.path.splitext\<close> on a POSIX host (separator \<^verbatim>\<open>/\<close>, no alternative separator),
  as the standard library computes it:
  \<^verbatim>\<open>
    sepIndex = p.rfind(sep)
    dotIndex = p.rfind(extsep)
    if dotIndex > sepIndex:
        filenameIndex = sepIndex + 1
        while filenameIndex < dotIndex:
            if p[filenameIndex:filenameIndex+1] != extsep:
                return p[:dotIndex], p[dotIndex:]
            filenameIndex += 1
    return p, p[:0]
  \<close>
  \<open>splitext_loop\<close> is the while loop: it answers whether the loop leaves through its
  inner \<^verbatim>\<open>return\<close>.
\<close>

function splitext_loop :: "string \<Rightarrow> nat \<Rightarrow> nat \<Rightarrow> bool" where
  "splitext_loop p filenameIndex dotIndex =
     (if filenameIndex < dotIndex
      then (if p ! filenameIndex \<noteq> CHR ''.'' then True
            else splitext_loop p (filenameIndex + 1) dotIndex)
      else False)"
  by pat_completeness auto
termination
  by (relation "measure (\<lambda>(p, i, d). d - i)") auto

declare splitext_loop.simps [simp del]

definition splitext :: "string \<Rightarrow> string \<times> string" where
  "splitext p =
     (let sepIndex = rfind (CHR ''/'') p;
          dotIndex = rfind (CHR ''.'') p
      in if dotIndex > sepIndex \<and> splitext_loop p (nat (sepIndex + 1)) (nat dotIndex)
         then (take (nat dotIndex) p, drop (nat dotIndex) p)
         else (p, []))"

section \<open>Naming of the processed file\<close>

text \<open>
  \<^verbatim>\<open>VideoProcessorService._generate_processed_filename\<close>:
  \<^verbatim>\<open>
    name_without_ext = os.path.splitext(original_filename)[0]
    return f"{name_without_ext}_processed.mp4"
  \<close>
\<close>

definition generate_processed_filename :: "string \<Rightarrow> string" where
  "generate_processed_filename original_filename =
     (let name_without_ext = fst (splitext original_filename)
      in name_without_ext @ ''_processed.mp4'')"

text \<open>
  The naming rule in the words of the specification, to be compared with the code: the
  extension is the substring after the last \<^verbatim>\<open>.\<close> of the final path segment; it is
  stripped together with that dot, and the fixed suffix is appended. A name whose final
  segment has no dot has no extension to strip.
\<close>

definition final_segment :: "string \<Rightarrow> string" where
  "final_segment p = rev (takeWhile (\<lambda>c. c \<noteq> CHR ''/'') (rev p))"

definition strip_last_extension_spec :: "string \<Rightarrow> string" where
  "strip_last_extension_spec p =
     (if CHR ''.'' \<in> set (final_segment p)
      then rev (tl (dropWhile (\<lambda>c. c \<noteq> CHR ''.'') (rev p)))
      else p)"

definition deriveName_spec :: "string \<Rightarrow> string" where
  "deriveName_spec p = strip_last_extension_spec p @ ''_processed.mp4''"

text \<open>
  A final segment in which every dot is a leading dot (\<^verbatim>\<open>.mp4\<close>, \<^verbatim>\<open>..\<close>, or no dot at
  all): once the leading dots are skipped, no dot is left.
\<close>

definition only_leading_dots :: "string \<Rightarrow> bool" where
  "only_leading_dots seg = (CHR ''.'' \<notin> set (dropWhile (\<lambda>c. c = CHR ''.'') seg))"

section \<open>Exceptions\<close>

text \<open>
  A raised exception is a value: its class and the text that \<^verbatim>\<open>str(e)\<close> gives. The code
  raises \<^verbatim>\<open>Exception\<close> and \<^verbatim>\<open>GoogleCloudError\<close> itself and tells the two apart in its
  handlers; \<^verbatim>\<open>AttributeError\<close> and \<^verbatim>\<open>FileNotFoundError\<close> come from the interpreter, and
  \<open>OtherError\<close> stands for any other class a library call may raise. The text of an
  exception the code constructs is taken to be the message it was constructed with.
\<close>

datatype pyexc =
    Exception string
  | GoogleCloudError string
  | AttributeError string
  | FileNotFoundError string
  | OtherError string

fun str_exc :: "pyexc \<Rightarrow> string" where
  "str_exc (Exception m) = m"
| "str_exc (GoogleCloudError m) = m"
| "str_exc (AttributeError m) = m"
| "str_exc (FileNotFoundError m) = m"
| "str_exc (OtherError m) = m"

type_synonym bytes = "nat list"
type_synonym datetime = nat

section \<open>Configuration\<close>

text \<open>
  \<^verbatim>\<open>app/config/settings.py\<close>, the attributes the two services read. The services take the
  configuration object as a constructor argument and read attributes from it by name. The
  class \<^verbatim>\<open>Config\<close> defines \<^verbatim>\<open>BUCKET_NAME\<close>, \<^verbatim>\<open>BUCKET_FOLDER\<close>,
  \<^verbatim>\<open>SIGNING_SERVICE_ACCOUNT_EMAIL\<close> and \<^verbatim>\<open>MAX_CONTENT_LENGTH\<close> in its storage section and
  no attribute \<^verbatim>\<open>BUCKET_FOLDER_VIDEOS\<close>; the test fixtures pass objects that do carry one.
  So that attribute is optional in the record: \<open>None\<close> is an object without it, on
  which reading it raises \<^verbatim>\<open>AttributeError\<close>. \<open>Config\<close> is the class with no environment
  variable set.
\<close>

record config =
  class_name :: string
  GCP_PROJECT_ID :: string
  BUCKET_NAME :: string
  BUCKET_FOLDER :: string
  SIGNING_SERVICE_ACCOUNT_EMAIL :: string
  MAX_CONTENT_LENGTH :: int
  BUCKET_FOLDER_VIDEOS :: "string option"

definition Config :: config where
  "Config = \<lparr> class_name = ''Config'',
              GCP_PROJECT_ID = ''project-id'',
              BUCKET_NAME = ''medisupply-bucket'',
              BUCKET_FOLDER = ''sales-plan'',
              SIGNING_SERVICE_ACCOUNT_EMAIL = [],
              MAX_CONTENT_LENGTH = 500 * 1024 * 1024,
              BUCKET_FOLDER_VIDEOS = None \<rparr>"

definition getattr_BUCKET_FOLDER_VIDEOS :: "config \<Rightarrow> pyexc + string" where
  "getattr_BUCKET_FOLDER_VIDEOS cfg =
     (case BUCKET_FOLDER_VIDEOS cfg of
        None \<Rightarrow> Inl (AttributeError (quote @ class_name cfg @ quote
                       @ '' object has no attribute '' @ quote @ ''BUCKET_FOLDER_VIDEOS'' @ quote))
      | Some v \<Rightarrow> Inr v)"

section \<open>Stored records, the session, the disk\<close>

text \<open>
  \<^verbatim>\<open>ScheduledVisitClientDB\<close> of \<^verbatim>\<open>app/models/db_models.py\<close>; the primary key \<^verbatim>\<open>id\<close> is
  the key of the table below. A nullable column is an option.
\<close>

record ScheduledVisitClientDB =
  visit_id :: string
  client_id :: string
  status_col :: string
  find_col :: "string option"
  filename :: "string option"
  filename_url :: "string option"
  file_status :: "string option"
  filename_processed :: "string option"
  filename_url_processed :: "string option"
  created_at :: datetime
  updated_at :: datetime

text \<open>
  What a run does to the outside is kept in a \<open>world\<close>: the committed table, the
  changes the session holds and has not committed, the files on disk, and the calls made
  to the collaborators, in order.
\<close>

datatype event =
    SessionQuery int
  | SessionCommit
  | SessionRollback
  | DownloadFile string string
  | UploadFile string
  | OsRemove string
  | LoggerError string
  | LoggerWarning string

record world =
  rows :: "int \<rightharpoonup> ScheduledVisitClientDB"
  pending :: "int \<rightharpoonup> ScheduledVisitClientDB"
  disk :: "string \<rightharpoonup> bytes"
  trace :: "event list"

text \<open>
  What the collaborators answer during one run is an \<open>env\<close>: for every call of the
  database session, of the storage client, of the temporary-file and video libraries and
  of \<^verbatim>\<open>os.remove\<close>, either the exception it raises or the value it returns. A fault
  that is \<open>None\<close> means the call returns.
\<close>

record env =
  lookup_fault :: "pyexc option"
  refetch_fault :: "pyexc option"
  commit_fault :: "pyexc option"
  utcnow :: datetime
  storage_Client :: "pyexc option"
  client_bucket :: "pyexc option"
  blob_exists :: "string \<Rightarrow> pyexc + bool"
  blob_download_to_file :: "string \<Rightarrow> pyexc + bytes"
  blob_upload_from_file :: "string \<Rightarrow> string \<Rightarrow> pyexc option"
  generate_signed_url :: "string \<Rightarrow> pyexc + string"
  install_dir :: string
  temp_video :: "pyexc + string"
  temp_video_write :: "pyexc option"
  VideoFileClip :: "pyexc option"
  logo_clips :: "pyexc option"
  temp_processed :: "pyexc + string"
  write_videofile :: "pyexc + bytes"
  close_clips :: "pyexc option"
  os_remove :: "string \<Rightarrow> pyexc option"

section \<open>CloudStorageService\<close>

text \<open>
  \<^verbatim>\<open>app/services/cloud_storage_service.py\<close>. Each method is a \<^verbatim>\<open>try\<close> body followed by
  its handlers; the body is the function named \<open>_body\<close>. The properties \<^verbatim>\<open>client\<close> and
  \<^verbatim>\<open>bucket\<close> wrap any exception of the storage library in a \<^verbatim>\<open>GoogleCloudError\<close>.
\<close>

definition client :: "env \<Rightarrow> pyexc + unit" where
  "client en =
     (case storage_Client en of
        Some e \<Rightarrow> Inl (GoogleCloudError (''Error al inicializar cliente de GCS: '' @ str_exc e))
      | None \<Rightarrow> Inr ())"

definition bucket :: "config \<Rightarrow> env \<Rightarrow> pyexc + unit" where
  "bucket cfg en =
     (let wrap = (\<lambda>e. GoogleCloudError (''Error al obtener bucket '' @ quote @ BUCKET_NAME cfg
                        @ quote @ '': '' @ str_exc e))
      in case client en of
           Inl e \<Rightarrow> Inl (wrap e)
         | Inr _ \<Rightarrow> (case client_bucket en of Some e \<Rightarrow> Inl (wrap e) | None \<Rightarrow> Inr ()))"

text \<open>
  \<^verbatim>\<open>full_path = f"{folder}/{filename}" if folder else filename\<close>, as
  \<^verbatim>\<open>download_file\<close> builds it.
\<close>

definition join_folder :: "string option \<Rightarrow> string \<Rightarrow> string" where
  "join_folder folder fname =
     (case folder of
        None \<Rightarrow> fname
      | Some f \<Rightarrow> if f = [] then fname else f @ ''/'' @ fname)"

definition download_file_body :: "config \<Rightarrow> env \<Rightarrow> string \<Rightarrow> string option \<Rightarrow> pyexc + bytes" where
  "download_file_body cfg en fname folder =
     (let full_path = join_folder folder fname
      in case bucket cfg en of
           Inl e \<Rightarrow> Inl e
         | Inr _ \<Rightarrow>
            (case blob_exists en full_path of
               Inl e \<Rightarrow> Inl e
             | Inr False \<Rightarrow>
                 Inl (GoogleCloudError (''El archivo '' @ full_path @ '' no existe en el bucket''))
             | Inr True \<Rightarrow> blob_download_to_file en full_path))"

definition download_file :: "config \<Rightarrow> env \<Rightarrow> string \<Rightarrow> string option \<Rightarrow> pyexc + bytes" where
  "download_file cfg en fname folder =
     (case download_file_body cfg en fname folder of
        Inl (GoogleCloudError m) \<Rightarrow> Inl (GoogleCloudError m)
      | Inl e \<Rightarrow> Inl (GoogleCloudError
                        (''Error al descargar archivo desde Cloud Storage: '' @ str_exc e))
      | Inr file_content \<Rightarrow> Inr file_content)"

text \<open>
  \<^verbatim>\<open>get_file_url\<close>: the empty string when the blob does not exist, the signed URL
  otherwise, and from the handler the public URL pattern. The two imports that open the
  body are of packages the module itself needs to load, and are taken to succeed. The
  three calls that produce the signed URL (default credentials, impersonation,
  \<^verbatim>\<open>generate_signed_url\<close>) are one answer of the environment.
\<close>

definition public_url :: "config \<Rightarrow> string \<Rightarrow> string \<Rightarrow> string" where
  "public_url cfg target_folder fname =
     ''https://storage.googleapis.com/'' @ BUCKET_NAME cfg @ ''/'' @ target_folder @ ''/'' @ fname"

definition get_file_url_body :: "config \<Rightarrow> env \<Rightarrow> string \<Rightarrow> string \<Rightarrow> pyexc + string" where
  "get_file_url_body cfg en fname target_folder =
     (let full_path = target_folder @ ''/'' @ fname
      in case bucket cfg en of
           Inl e \<Rightarrow> Inl e
         | Inr _ \<Rightarrow>
            (case blob_exists en full_path of
               Inl e \<Rightarrow> Inl e
             | Inr False \<Rightarrow> Inr []
             | Inr True \<Rightarrow> generate_signed_url en full_path))"

definition get_file_url :: "config \<Rightarrow> env \<Rightarrow> string \<Rightarrow> string option \<Rightarrow> pyexc + string" where
  "get_file_url cfg en fname folder =
     (let target_folder = (case folder of None \<Rightarrow> BUCKET_FOLDER cfg | Some f \<Rightarrow> f)
      in case get_file_url_body cfg en fname target_folder of
           Inl e \<Rightarrow> Inr (public_url cfg target_folder fname)
         | Inr url \<Rightarrow> Inr url)"

text \<open>
  \<^verbatim>\<open>upload_file\<close>. A \<^verbatim>\<open>FileStorage\<close> is false exactly when its file name is empty, so
  \<^verbatim>\<open>not file or not file.filename\<close> is one test. The extension is what follows the last
  dot, in lower case; the table keys are ASCII, so lowering ASCII letters decides the
  lookup.
\<close>

record FileStorage =
  fs_stream :: bytes
  fs_filename :: string
  fs_content_type :: string

definition lower_char :: "char \<Rightarrow> char" where
  "lower_char c =
     (let n = (of_char c :: nat) in if 65 \<le> n \<and> n \<le> 90 then char_of (n + 32) else c)"

definition content_types :: "(string \<times> string) list" where
  "content_types =
     [(''pdf'', ''application/pdf''),
      (''doc'', ''application/msword''),
      (''docx'', ''application/vnd.openxmlformats-officedocument.wordprocessingml.document''),
      (''xls'', ''application/vnd.ms-excel''),
      (''xlsx'', ''application/vnd.openxmlformats-officedocument.spreadsheetml.sheet''),
      (''txt'', ''text/plain''),
      (''jpg'', ''image/jpeg''),
      (''jpeg'', ''image/jpeg''),
      (''png'', ''image/png''),
      (''gif'', ''image/gif''),
      (''mp4'', ''video/mp4''),
      (''avi'', ''video/x-msvideo''),
      (''mov'', ''video/quicktime''),
      (''wmv'', ''video/x-ms-wmv'')]"

definition detect_content_type :: "string \<Rightarrow> string" where
  "detect_content_type name =
     (if CHR ''.'' \<in> set name
      then (let extension = map lower_char (rev (takeWhile (\<lambda>c. c \<noteq> CHR ''.'') (rev name)))
            in case map_of content_types extension of
                 None \<Rightarrow> ''application/octet-stream''
               | Some t \<Rightarrow> t)
      else ''application/octet-stream'')"

definition upload_file_body ::
  "config \<Rightarrow> env \<Rightarrow> FileStorage \<Rightarrow> string \<Rightarrow> string option
     \<Rightarrow> pyexc + bool \<times> string \<times> string option" where
  "upload_file_body cfg en file fname folder =
     (if fs_filename file = []
      then Inr (False, ''No se proporcion'' @ o_acute @ '' archivo'', None)
      else
       (let file_size = int (length (fs_stream file));
            max_size = MAX_CONTENT_LENGTH cfg
        in if file_size > max_size
           then Inr (False, ''El archivo excede el tama'' @ n_tilde @ ''o m'' @ a_acute
                       @ ''ximo permitido de '' @ str_int (max_size div (1024 * 1024)) @ '' MB'',
                     None)
           else
            (let target_folder = (case folder of None \<Rightarrow> BUCKET_FOLDER cfg | Some f \<Rightarrow> f);
                 full_path = target_folder @ ''/'' @ fname
             in case bucket cfg en of
                  Inl e \<Rightarrow> Inl e
                | Inr _ \<Rightarrow>
                   (let content_type = detect_content_type (fs_filename file)
                    in case blob_upload_from_file en full_path content_type of
                         Some e \<Rightarrow> Inl e
                       | None \<Rightarrow>
                          (case get_file_url cfg en fname (Some target_folder) of
                             Inl e \<Rightarrow> Inl e
                           | Inr signed_url \<Rightarrow>
                               Inr (True, ''Archivo subido exitosamente'', Some signed_url))))))"

definition upload_file ::
  "config \<Rightarrow> env \<Rightarrow> FileStorage \<Rightarrow> string \<Rightarrow> string option \<Rightarrow> bool \<times> string \<times> string option" where
  "upload_file cfg en file fname folder =
     (case upload_file_body cfg en file fname folder of
        Inl (GoogleCloudError m) \<Rightarrow> (False, ''Error de Google Cloud Storage: '' @ m, None)
      | Inl e \<Rightarrow> (False, ''Error al subir archivo: '' @ str_exc e, None)
      | Inr r \<Rightarrow> r)"

section \<open>VideoProcessorService\<close>

text \<open>
  \<^verbatim>\<open>app/services/video_processor_service.py\<close>. The branding image lies under the
  directory the package is installed in.
\<close>

definition logo_path :: "env \<Rightarrow> string" where
  "logo_path en = install_dir en @ ''/resources/logoMedisupply.png''"

definition log_event :: "event \<Rightarrow> world \<Rightarrow> world" where
  "log_event ev w = w\<lparr>trace := trace w @ [ev]\<rparr>"

text \<open>
  The session: a query sees the committed rows overlaid with the uncommitted changes;
  \<^verbatim>\<open>commit\<close> writes the changes to the table or raises and writes nothing;
  \<^verbatim>\<open>rollback\<close> drops them.
\<close>

definition session_view :: "world \<Rightarrow> int \<rightharpoonup> ScheduledVisitClientDB" where
  "session_view w = rows w ++ pending w"

definition session_first ::
  "pyexc option \<Rightarrow> int \<Rightarrow> world \<Rightarrow> (pyexc + ScheduledVisitClientDB option) \<times> world" where
  "session_first fault rid w =
     (case fault of
        Some e \<Rightarrow> (Inl e, log_event (SessionQuery rid) w)
      | None \<Rightarrow> (Inr (session_view w rid), log_event (SessionQuery rid) w))"

definition session_commit :: "env \<Rightarrow> world \<Rightarrow> (pyexc + unit) \<times> world" where
  "session_commit en w =
     (case commit_fault en of
        Some e \<Rightarrow> (Inl e, log_event SessionCommit w)
      | None \<Rightarrow> (Inr (), log_event SessionCommit
                           (w\<lparr>rows := rows w ++ pending w, pending := Map.empty\<rparr>)))"

definition session_rollback :: "world \<Rightarrow> world" where
  "session_rollback w = log_event SessionRollback (w\<lparr>pending := Map.empty\<rparr>)"

text \<open>
  \<^verbatim>\<open>_get_visit_client_by_id\<close> is the query by primary key. Its first argument here is
  what the environment answers to this query: the fault of the look-up that opens the run,
  or the fault of the second fetch in the persistence step.
\<close>

definition get_visit_client_by_id ::
  "pyexc option \<Rightarrow> int \<Rightarrow> world \<Rightarrow> (pyexc + ScheduledVisitClientDB option) \<times> world" where
  "get_visit_client_by_id fault visit_client_id w = session_first fault visit_client_id w"

text \<open>
  \<^verbatim>\<open>_download_video_from_storage\<close>: the folder argument
  \<^verbatim>\<open>self.config.BUCKET_FOLDER_VIDEOS\<close> is evaluated inside the \<^verbatim>\<open>try\<close>, before the call.
\<close>

definition download_video_from_storage ::
  "config \<Rightarrow> env \<Rightarrow> string \<Rightarrow> world \<Rightarrow> (pyexc + bytes) \<times> world" where
  "download_video_from_storage cfg en fname w =
     (let wrap = (\<lambda>e. Exception (''Error al descargar video desde Cloud Storage: '' @ str_exc e))
      in case getattr_BUCKET_FOLDER_VIDEOS cfg of
           Inl e \<Rightarrow> (Inl (wrap e), w)
         | Inr folder \<Rightarrow>
            (case download_file cfg en fname (Some folder) of
               Inl e \<Rightarrow> (Inl (wrap e), log_event (DownloadFile fname folder) w)
             | Inr video_content \<Rightarrow> (Inr video_content, log_event (DownloadFile fname folder) w)))"

text \<open>
  \<^verbatim>\<open>_process_video_with_logo\<close>. Both temporary files are made with \<^verbatim>\<open>delete=False\<close>,
  so each stays on disk from the moment it is created. The paths are local to the method
  and reach the caller only through the \<^verbatim>\<open>return\<close> at its end.
\<close>

definition write_disk :: "string \<Rightarrow> bytes \<Rightarrow> world \<Rightarrow> world" where
  "write_disk path content w = w\<lparr>disk := (disk w)(path \<mapsto> content)\<rparr>"

definition process_video_with_logo_body ::
  "env \<Rightarrow> bytes \<Rightarrow> string \<Rightarrow> world \<Rightarrow> (pyexc + string \<times> string) \<times> world" where
  "process_video_with_logo_body en video_content fname w =
     (case temp_video en of
        Inl e \<Rightarrow> (Inl e, w)
      | Inr temp_video_path \<Rightarrow>
         (case temp_video_write en of
            Some e \<Rightarrow> (Inl e, write_disk temp_video_path [] w)
          | None \<Rightarrow>
             (let w1 = write_disk temp_video_path video_content w
              in case VideoFileClip en of
                   Some e \<Rightarrow> (Inl e, w1)
                 | None \<Rightarrow>
                    if disk w1 (logo_path en) = None
                    then (Inl (Exception (''Logo no encontrado en: '' @ logo_path en)), w1)
                    else
                     (case logo_clips en of
                        Some e \<Rightarrow> (Inl e, w1)
                      | None \<Rightarrow>
                         (case temp_processed en of
                            Inl e \<Rightarrow> (Inl e, w1)
                          | Inr temp_processed_path \<Rightarrow>
                             (let w2 = write_disk temp_processed_path [] w1
                              in case write_videofile en of
                                   Inl e \<Rightarrow> (Inl e, w2)
                                 | Inr encoded \<Rightarrow>
                                    (let w3 = write_disk temp_processed_path encoded w2
                                     in case close_clips en of
                                          Some e \<Rightarrow> (Inl e, w3)
                                        | None \<Rightarrow>
                                           (Inr (temp_video_path, temp_processed_path), w3))))))))"

definition process_video_with_logo ::
  "env \<Rightarrow> bytes \<Rightarrow> string \<Rightarrow> world \<Rightarrow> (pyexc + string \<times> string) \<times> world" where
  "process_video_with_logo en video_content fname w =
     (case process_video_with_logo_body en video_content fname w of
        (Inl e, w') \<Rightarrow> (Inl (Exception (''Error al procesar video: '' @ str_exc e)), w')
      | (Inr paths, w') \<Rightarrow> (Inr paths, w'))"

text \<open>
  \<^verbatim>\<open>_upload_processed_video\<close>: opens the processed file, hands it to
  \<^verbatim>\<open>upload_file\<close> with the default folder, and raises when the first component of the
  answer is false.
\<close>

definition upload_processed_video_body ::
  "config \<Rightarrow> env \<Rightarrow> string \<Rightarrow> string \<Rightarrow> world \<Rightarrow> (pyexc + string option) \<times> world" where
  "upload_processed_video_body cfg en video_path fname w =
     (case disk w video_path of
        None \<Rightarrow> (Inl (FileNotFoundError (''[Errno 2] No such file or directory: '' @ quote
                         @ video_path @ quote)), w)
      | Some video_file \<Rightarrow>
         (let file_storage = \<lparr> fs_stream = video_file, fs_filename = fname,
                                fs_content_type = ''video/mp4'' \<rparr>;
              w1 = log_event (UploadFile fname) w
          in case upload_file cfg en file_storage fname None of
               (success, message, signed_url) \<Rightarrow>
                 if \<not> success
                 then (Inl (Exception (''Error al subir video: '' @ message)), w1)
                 else (Inr signed_url, w1)))"

definition upload_processed_video ::
  "config \<Rightarrow> env \<Rightarrow> string \<Rightarrow> string \<Rightarrow> world \<Rightarrow> (pyexc + string option) \<times> world" where
  "upload_processed_video cfg en video_path fname w =
     (case upload_processed_video_body cfg en video_path fname w of
        (Inl e, w') \<Rightarrow> (Inl (Exception (''Error al subir video procesado: '' @ str_exc e)), w')
      | (Inr signed_url, w') \<Rightarrow> (Inr signed_url, w'))"

text \<open>
  \<^verbatim>\<open>_update_visit_client_record\<close>: fetches the record again, sets the four fields,
  commits; its handler rolls back and raises.
\<close>

definition update_visit_client_record_body ::
  "env \<Rightarrow> int \<Rightarrow> string \<Rightarrow> string option \<Rightarrow> world \<Rightarrow> (pyexc + unit) \<times> world" where
  "update_visit_client_record_body en visit_client_id processed_name processed_link w =
     (case get_visit_client_by_id (refetch_fault en) visit_client_id w of
        (Inl e, w1) \<Rightarrow> (Inl e, w1)
      | (Inr None, w1) \<Rightarrow> (Inl (Exception ''Registro no encontrado''), w1)
      | (Inr (Some db_client), w1) \<Rightarrow>
          session_commit en
            (w1\<lparr>pending := (pending w1)(visit_client_id \<mapsto>
                   db_client\<lparr>filename_processed := Some processed_name,
                             filename_url_processed := processed_link,
                             file_status := Some ''Procesado'',
                             updated_at := utcnow en\<rparr>)\<rparr>))"

definition update_visit_client_record ::
  "env \<Rightarrow> int \<Rightarrow> string \<Rightarrow> string option \<Rightarrow> world \<Rightarrow> (pyexc + unit) \<times> world" where
  "update_visit_client_record en visit_client_id processed_name processed_link w =
     (case update_visit_client_record_body en visit_client_id processed_name processed_link w of
        (Inl e, w') \<Rightarrow>
          (Inl (Exception (''Error al actualizar registro: '' @ str_exc e)), session_rollback w')
      | (Inr u, w') \<Rightarrow> (Inr u, w'))"

text \<open>
  \<^verbatim>\<open>_cleanup_temp_files\<close>: for each path that is set and exists, \<^verbatim>\<open>os.remove\<close>; an
  exception of the removal is logged as a warning.
\<close>

fun cleanup_temp_files :: "env \<Rightarrow> string option list \<Rightarrow> world \<Rightarrow> world" where
  "cleanup_temp_files en [] w = w"
| "cleanup_temp_files en (file_path # rest) w =
     cleanup_temp_files en rest
       (case file_path of
          None \<Rightarrow> w
        | Some path \<Rightarrow>
           if path \<noteq> [] \<and> disk w path \<noteq> None
           then (case os_remove en path of
                   None \<Rightarrow> log_event (OsRemove path) (w\<lparr>disk := (disk w)(path := None)\<rparr>)
                 | Some e \<Rightarrow>
                     log_event (LoggerWarning (''Error al eliminar archivo temporal '' @ path
                                                @ '': '' @ str_exc e))
                       (log_event (OsRemove path) w))
           else w)"

text \<open>
  \<^verbatim>\<open>process_video_by_visit_client_id\<close>. \<open>process_video_try\<close> is the \<^verbatim>\<open>try\<close> body; with
  its outcome it returns the two path variables as the \<^verbatim>\<open>finally\<close> clause finds them:
  \<^verbatim>\<open>None\<close> until \<^verbatim>\<open>_process_video_with_logo\<close> has returned. The handler logs and wraps
  the exception, and the clean-up runs on either outcome. Reading the file name of the
  record once more for the result, after the commit, is taken to succeed.
\<close>

record processing_result =
  visit_client_id :: int
  original_filename :: string
  processed_filename :: string
  processed_url :: "string option"
  status :: string

definition process_video_try ::
  "config \<Rightarrow> env \<Rightarrow> int \<Rightarrow> world
     \<Rightarrow> (pyexc + processing_result) \<times> (string option \<times> string option) \<times> world" where
  "process_video_try cfg en rid w =
     (case get_visit_client_by_id (lookup_fault en) rid w of
        (Inl e, w1) \<Rightarrow> (Inl e, (None, None), w1)
      | (Inr None, w1) \<Rightarrow>
          (Inl (Exception (''No se encontr'' @ o_acute
                  @ '' registro de cliente en visita con ID: '' @ str_int rid)), (None, None), w1)
      | (Inr (Some db_client), w1) \<Rightarrow>
         (case (filename db_client, filename_url db_client) of
            (Some fname, Some furl) \<Rightarrow>
              if fname = [] \<or> furl = []
              then (Inl (Exception ''El registro no tiene un video asociado''), (None, None), w1)
              else
               (case download_video_from_storage cfg en fname w1 of
                  (Inl e, w2) \<Rightarrow> (Inl e, (None, None), w2)
                | (Inr video_content, w2) \<Rightarrow>
                   (case process_video_with_logo en video_content fname w2 of
                      (Inl e, w3) \<Rightarrow> (Inl e, (None, None), w3)
                    | (Inr (temp_video_path, temp_processed_path), w3) \<Rightarrow>
                       (let processed_name = generate_processed_filename fname;
                            paths = (Some temp_video_path, Some temp_processed_path)
                        in case upload_processed_video cfg en temp_processed_path
                                  processed_name w3 of
                             (Inl e, w4) \<Rightarrow> (Inl e, paths, w4)
                           | (Inr processed_link, w4) \<Rightarrow>
                              (case update_visit_client_record en rid processed_name
                                      processed_link w4 of
                                 (Inl e, w5) \<Rightarrow> (Inl e, paths, w5)
                               | (Inr _, w5) \<Rightarrow>
                                   (Inr \<lparr> visit_client_id = rid,
                                          original_filename = fname,
                                          processed_filename = processed_name,
                                          processed_url = processed_link,
                                          status = ''Procesado'' \<rparr>, paths, w5)))))
          | _ \<Rightarrow> (Inl (Exception ''El registro no tiene un video asociado''), (None, None), w1)))"

definition process_video_by_visit_client_id ::
  "config \<Rightarrow> env \<Rightarrow> int \<Rightarrow> world \<Rightarrow> (pyexc + processing_result) \<times> world" where
  "process_video_by_visit_client_id cfg en rid w =
     (case process_video_try cfg en rid w of
        (Inl e, (temp_video_path, temp_processed_path), w') \<Rightarrow>
          (Inl (Exception (''Error al procesar video: '' @ str_exc e)),
           cleanup_temp_files en [temp_video_path, temp_processed_path]
             (log_event (LoggerError (''Error en procesamiento de video: '' @ str_exc e)) w'))
      | (Inr r, (temp_video_path, temp_processed_path), w') \<Rightarrow>
          (Inr r, cleanup_temp_files en [temp_video_path, temp_processed_path] w'))"

section \<open>Counting calls\<close>

fun download_attempts :: "event list \<Rightarrow> nat" where
  "download_attempts [] = 0"
| "download_attempts (DownloadFile f d # evs) = Suc (download_attempts evs)"
| "download_attempts (ev # evs) = download_attempts evs"

section \<open>A concrete run\<close>

text \<open>
  The scenario of the specification: record 1 with file \<^verbatim>\<open>clip.mp4\<close>, a download of ten
  bytes, a composition that succeeds, an upload answered with the URL
  \<^verbatim>\<open>https://x/clip_processed.mp4\<close>. \<open>videos_config\<close> is \<open>Config\<close> with the videos
  folder added, as the test fixtures build their configuration objects.
\<close>

definition videos_config :: config where
  "videos_config = Config\<lparr>BUCKET_FOLDER_VIDEOS := Some ''videos''\<rparr>"

definition clip_env :: env where
  "clip_env = \<lparr> lookup_fault = None, refetch_fault = None, commit_fault = None, utcnow = 100,
      storage_Client = None, client_bucket = None,
      blob_exists = (\<lambda>p. Inr True),
      blob_download_to_file = (\<lambda>p. Inr [0, 1, 2, 3, 4, 5, 6, 7, 8, 9]),
      blob_upload_from_file = (\<lambda>p c. None),
      generate_signed_url = (\<lambda>p. Inr ''https://x/clip_processed.mp4''),
      install_dir = ''/app'',
      temp_video = Inr ''/tmp/a.mp4'',
      temp_video_write = None,
      VideoFileClip = None,
      logo_clips = None,
      temp_processed = Inr ''/tmp/b_processed.mp4'',
      write_videofile = Inr [9, 9],
      close_clips = None,
      os_remove = (\<lambda>p. None) \<rparr>"

definition clip_record :: ScheduledVisitClientDB where
  "clip_record = \<lparr> visit_id = ''v1'', client_id = ''c1'', status_col = ''SCHEDULED'',
      find_col = None, filename = Some ''clip.mp4'', filename_url = Some ''https://x/clip.mp4'',
      file_status = None, filename_processed = None, filename_url_processed = None,
      created_at = 1, updated_at = 1 \<rparr>"

definition clip_world :: world where
  "clip_world = \<lparr> rows = [1 \<mapsto> clip_record], pending = Map.empty,
      disk = [''/app/resources/logoMedisupply.png'' \<mapsto> [7]], trace = [] \<rparr>"

text \<open>
  Variations of the scenario: the uploaded blob is reported absent when its URL is asked
  for (by a store that answers for the source video only, or for everything but the
  uploaded file); signing fails; the upload itself is refused by the store; the record
  has an empty file name.
\<close>

definition blob_gone_env :: env where
  "blob_gone_env = clip_env\<lparr>blob_exists := (\<lambda>p. Inr (p = ''videos/clip.mp4''))\<rparr>"

definition upload_lost_env :: env where
  "upload_lost_env = clip_env\<lparr>blob_exists := (\<lambda>p. Inr (p \<noteq> ''sales-plan/clip_processed.mp4''))\<rparr>"

definition unsigned_env :: env where
  "unsigned_env = clip_env\<lparr>generate_signed_url := (\<lambda>p. Inl (OtherError ''no credentials''))\<rparr>"

definition quota_env :: env where
  "quota_env = clip_env\<lparr>blob_upload_from_file := (\<lambda>p c. Some (GoogleCloudError ''quota''))\<rparr>"

definition no_video_world :: world where
  "no_video_world = clip_world\<lparr>rows := [1 \<mapsto> clip_record\<lparr>filename := Some []\<rparr>]\<rparr>"

section \<open>Properties of the naming rule\<close>

lemma rfind_aux_append:
  "rfind_aux c (xs @ ys) i acc = rfind_aux c ys (i + int (length xs)) (rfind_aux c xs i acc)"
  by (induction xs arbitrary: i acc) (simp_all add: algebra_simps)

lemma rfind_aux_notin: "c \<notin> set xs \<Longrightarrow> rfind_aux c xs i acc = acc"
  by (induction xs arbitrary: i) auto

lemma rfind_notin: "c \<notin> set p \<Longrightarrow> rfind c p = - 1"
  by (simp add: rfind_def rfind_aux_notin)

lemma rfind_last: "c \<notin> set post \<Longrightarrow> rfind c (pre @ c # post) = int (length pre)"
  by (simp add: rfind_def rfind_aux_append rfind_aux_notin)

lemma splitext_loop_ex:
  "splitext_loop p i d = (\<exists>j. i \<le> j \<and> j < d \<and> p ! j \<noteq> CHR ''.'')"
proof (induction p i d rule: splitext_loop.induct)
  case (1 p i d)
  show ?case
  proof (cases "i < d")
    case False
    then show ?thesis by (subst splitext_loop.simps) auto
  next
    case True
    show ?thesis
    proof (cases "p ! i \<noteq> CHR ''.''")
      case True
      with \<open>i < d\<close> show ?thesis by (subst splitext_loop.simps) auto
    next
      case False
      with \<open>i < d\<close> 1
      have "splitext_loop p i d = (\<exists>j. i + 1 \<le> j \<and> j < d \<and> p ! j \<noteq> CHR ''.'')"
        by (subst splitext_loop.simps) simp
      also have "\<dots> = (\<exists>j. i \<le> j \<and> j < d \<and> p ! j \<noteq> CHR ''.'')"
        using False by (metis Suc_eq_plus1 Suc_leD Suc_leI le_neq_implies_less)
      finally show ?thesis .
    qed
  qed
qed

lemma splitext_no_dot_in_seg:
  assumes seg: "CHR ''/'' \<notin> set seg" "CHR ''.'' \<notin> set seg"
      and d: "dir = [] \<or> last dir = CHR ''/''"
  shows "splitext (dir @ seg) = (dir @ seg, [])"
proof (cases "dir = []")
  case True
  with seg show ?thesis by (simp add: splitext_def rfind_notin)
next
  case False
  with d obtain pre where dir: "dir = pre @ [CHR ''/'']"
    by (metis append_butlast_last_id)
  have s: "rfind (CHR ''/'') (dir @ seg) = int (length pre)"
    using seg rfind_last [of "CHR ''/''" seg pre] by (simp add: dir)
  have "rfind (CHR ''.'') (dir @ seg) \<le> int (length pre)"
  proof (cases "CHR ''.'' \<in> set pre")
    case False
    with seg have "CHR ''.'' \<notin> set (dir @ seg)" by (simp add: dir)
    then show ?thesis by (simp add: rfind_notin)
  next
    case True
    then obtain a b where ab: "pre = a @ CHR ''.'' # b" "CHR ''.'' \<notin> set b"
      by (meson split_list_last)
    have "rfind (CHR ''.'') (a @ CHR ''.'' # (b @ [CHR ''/''] @ seg)) = int (length a)"
      using ab seg by (intro rfind_last) simp
    then show ?thesis by (simp add: dir ab)
  qed
  with s show ?thesis by (simp add: splitext_def)
qed

lemma splitext_dot_in_seg:
  assumes seg: "CHR ''/'' \<notin> set a" "CHR ''/'' \<notin> set b" "CHR ''.'' \<notin> set b"
      and d: "dir = [] \<or> last dir = CHR ''/''"
  shows "splitext (dir @ a @ CHR ''.'' # b) =
           (if \<exists>c \<in> set a. c \<noteq> CHR ''.'' then (dir @ a, CHR ''.'' # b)
            else (dir @ a @ CHR ''.'' # b, []))"
proof -
  let ?p = "dir @ a @ CHR ''.'' # b"
  have dot: "rfind (CHR ''.'') ?p = int (length dir + length a)"
    using seg rfind_last [of "CHR ''.''" b "dir @ a"] by simp
  have sep: "rfind (CHR ''/'') ?p = int (length dir) - 1"
  proof (cases "dir = []")
    case True
    with seg show ?thesis by (simp add: rfind_notin)
  next
    case False
    with d obtain pre where dir: "dir = pre @ [CHR ''/'']"
      by (metis append_butlast_last_id)
    have "rfind (CHR ''/'') (pre @ CHR ''/'' # (a @ CHR ''.'' # b)) = int (length pre)"
      using seg by (intro rfind_last) simp
    then show ?thesis by (simp add: dir)
  qed
  have loop: "splitext_loop ?p (length dir) (length dir + length a)
                = (\<exists>c \<in> set a. c \<noteq> CHR ''.'')"
  proof -
    have "(\<exists>j. length dir \<le> j \<and> j < length dir + length a \<and> ?p ! j \<noteq> CHR ''.'')
          = (\<exists>k < length a. a ! k \<noteq> CHR ''.'')"
    proof
      assume "\<exists>j. length dir \<le> j \<and> j < length dir + length a \<and> ?p ! j \<noteq> CHR ''.''"
      then obtain j where j: "length dir \<le> j" "j < length dir + length a"
          "?p ! j \<noteq> CHR ''.''"
        by blast
      from j have lt: "j - length dir < length a" by arith
      from j have "\<not> j < length dir" by arith
      with j lt have "a ! (j - length dir) \<noteq> CHR ''.''"
        by (simp add: nth_append)
      with lt show "\<exists>k < length a. a ! k \<noteq> CHR ''.''" by blast
    next
      assume "\<exists>k < length a. a ! k \<noteq> CHR ''.''"
      then obtain k where k: "k < length a" "a ! k \<noteq> CHR ''.''" by blast
      then have "?p ! (length dir + k) \<noteq> CHR ''.''" by (simp add: nth_append)
      with k show "\<exists>j. length dir \<le> j \<and> j < length dir + length a \<and> ?p ! j \<noteq> CHR ''.''"
        by (intro exI [of _ "length dir + k"]) simp
    qed
    also have "\<dots> = (\<exists>c \<in> set a. c \<noteq> CHR ''.'')"
      by (metis in_set_conv_nth)
    finally show ?thesis by (simp only: splitext_loop_ex)
  qed
  have n1: "nat (int (length dir) - 1 + 1) = length dir" by simp
  show ?thesis
    unfolding splitext_def Let_def dot sep n1 nat_int loop
    by simp
qed

lemma final_segment_decomp:
  obtains dir where "p = dir @ final_segment p" "dir = [] \<or> last dir = CHR ''/''"
    "CHR ''/'' \<notin> set (final_segment p)"
proof -
  let ?P = "\<lambda>c. c \<noteq> CHR ''/''"
  let ?dir = "rev (dropWhile ?P (rev p))"
  have "rev (takeWhile ?P (rev p) @ dropWhile ?P (rev p)) = p"
    by (simp only: takeWhile_dropWhile_id rev_rev_ident)
  then have 1: "p = ?dir @ final_segment p"
    by (simp only: rev_append final_segment_def)
  have 2: "?dir = [] \<or> last ?dir = CHR ''/''"
  proof (cases "dropWhile ?P (rev p) = []")
    case True then show ?thesis by simp
  next
    case False
    then have "\<not> ?P (hd (dropWhile ?P (rev p)))" by (rule hd_dropWhile)
    with False show ?thesis by (simp add: last_rev)
  qed
  have 3: "CHR ''/'' \<notin> set (final_segment p)"
    unfolding final_segment_def set_rev by (metis set_takeWhileD)
  from 1 2 3 that show thesis by blast
qed

lemma strip_at_last_dot:
  assumes "CHR ''.'' \<notin> set b"
  shows "rev (tl (dropWhile (\<lambda>c. c \<noteq> CHR ''.'') (rev (pre @ CHR ''.'' # b)))) = pre"
proof -
  have "dropWhile (\<lambda>c. c \<noteq> CHR ''.'') (rev b @ CHR ''.'' # rev pre) = CHR ''.'' # rev pre"
    using assms by (subst dropWhile_append2) auto
  then show ?thesis by simp
qed

lemma splitext_by_segment:
  assumes sep: "CHR ''/'' \<notin> set seg" and d: "dir = [] \<or> last dir = CHR ''/''"
  shows "fst (splitext (dir @ seg)) =
           (if only_leading_dots seg then dir @ seg
            else rev (tl (dropWhile (\<lambda>c. c \<noteq> CHR ''.'') (rev (dir @ seg)))))"
proof (cases "CHR ''.'' \<in> set seg")
  case False
  then have "only_leading_dots seg"
    unfolding only_leading_dots_def by (metis set_dropWhileD)
  moreover have "splitext (dir @ seg) = (dir @ seg, [])"
    using sep False d by (rule splitext_no_dot_in_seg)
  ultimately show ?thesis by simp
next
  case True
  then obtain a b where ab: "seg = a @ CHR ''.'' # b" "CHR ''.'' \<notin> set b"
    by (meson split_list_last)
  from sep ab have nosep: "CHR ''/'' \<notin> set a" "CHR ''/'' \<notin> set b" by simp_all
  have sp: "splitext (dir @ a @ CHR ''.'' # b) =
         (if \<exists>c \<in> set a. c \<noteq> CHR ''.'' then (dir @ a, CHR ''.'' # b)
          else (dir @ a @ CHR ''.'' # b, []))"
    using nosep ab(2) d by (rule splitext_dot_in_seg)
  show ?thesis
  proof (cases "\<exists>c \<in> set a. c \<noteq> CHR ''.''")
    case True
    then obtain c where c: "c \<in> set a" "c \<noteq> CHR ''.''" by blast
    then have "dropWhile (\<lambda>c. c = CHR ''.'') (a @ CHR ''.'' # b)
                 = dropWhile (\<lambda>c. c = CHR ''.'') a @ CHR ''.'' # b"
      by (rule dropWhile_append1)
    then have nl: "\<not> only_leading_dots seg" by (simp add: only_leading_dots_def ab(1))
    have "rev (tl (dropWhile (\<lambda>c. c \<noteq> CHR ''.'') (rev ((dir @ a) @ CHR ''.'' # b)))) = dir @ a"
      using ab(2) by (rule strip_at_last_dot)
    with nl sp True show ?thesis by (simp add: ab(1))
  next
    case False
    then have "dropWhile (\<lambda>c. c = CHR ''.'') (a @ CHR ''.'' # b)
                 = dropWhile (\<lambda>c. c = CHR ''.'') (CHR ''.'' # b)"
      by (intro dropWhile_append2) auto
    moreover have "CHR ''.'' \<notin> set (dropWhile (\<lambda>c. c = CHR ''.'') b)"
      using ab(2) by (auto dest: set_dropWhileD)
    ultimately have "only_leading_dots seg"
      by (simp add: only_leading_dots_def ab(1))
    with sp False show ?thesis by (simp add: ab(1))
  qed
qed

lemma generate_processed_filename_cases:
  "generate_processed_filename p =
     (if only_leading_dots (final_segment p) then p @ ''_processed.mp4''
      else deriveName_spec p)"
proof -
  obtain dir where dec: "p = dir @ final_segment p" "dir = [] \<or> last dir = CHR ''/''"
    "CHR ''/'' \<notin> set (final_segment p)"
    by (rule final_segment_decomp)
  have "fst (splitext (dir @ final_segment p)) =
           (if only_leading_dots (final_segment p) then dir @ final_segment p
            else rev (tl (dropWhile (\<lambda>c. c \<noteq> CHR ''.'') (rev (dir @ final_segment p)))))"
    using dec(3,2) by (rule splitext_by_segment)
  then have fs: "fst (splitext p) =
           (if only_leading_dots (final_segment p) then p
            else rev (tl (dropWhile (\<lambda>c. c \<noteq> CHR ''.'') (rev p))))"
    by (simp only: dec(1) [symmetric])
  have "\<not> only_leading_dots (final_segment p) \<Longrightarrow> CHR ''.'' \<in> set (final_segment p)"
    unfolding only_leading_dots_def by (metis set_dropWhileD)
  with fs show ?thesis
    by (auto simp: generate_processed_filename_def deriveName_spec_def
        strip_last_extension_spec_def)
qed

text \<open>
  Claim C4, as stated, at the file name \<^verbatim>\<open>.mp4\<close>: the rule of the claim strips what
  follows the last dot of the final segment and yields \<^verbatim>\<open>_processed.mp4\<close>, while the
  code, through \<^verbatim>\<open>os.path.splitext\<close>, takes a leading dot as part of the base name and
  yields \<^verbatim>\<open>.mp4_processed.mp4\<close>.
\<close>

theorem C4_leading_dot_counterexample:
  "generate_processed_filename ''.mp4'' = ''.mp4_processed.mp4''
   \<and> deriveName_spec ''.mp4'' = ''_processed.mp4''
   \<and> generate_processed_filename ''.mp4'' \<noteq> deriveName_spec ''.mp4''"
  by code_simp

text \<open>
  Claim C4, amended: the derived name is a function of the original name alone; when the
  final path segment has a dot that is not one of its leading dots, the name is cut at the
  last dot of that segment and \<^verbatim>\<open>_processed.mp4\<close> is appended, which keeps the earlier
  dots of the base name and the directory components; when every dot of the final segment
  is a leading dot, or it has none, nothing is cut and the suffix is appended to the whole
  name. The three names of the specification come out as it says.
\<close>

theorem C4_generate_processed_filename_amended:
  "generate_processed_filename p =
     (if only_leading_dots (final_segment p) then p @ ''_processed.mp4''
      else deriveName_spec p)
   \<and> generate_processed_filename ''video.mp4'' = ''video_processed.mp4''
   \<and> generate_processed_filename ''my.video.file.mp4'' = ''my.video.file_processed.mp4''
   \<and> generate_processed_filename ''path/to/video.mp4'' = ''path/to/video_processed.mp4''"
proof -
  have "generate_processed_filename ''video.mp4'' = ''video_processed.mp4''"
    by code_simp
  moreover
  have "generate_processed_filename ''my.video.file.mp4'' = ''my.video.file_processed.mp4''"
    by code_simp
  moreover
  have "generate_processed_filename ''path/to/video.mp4'' = ''path/to/video_processed.mp4''"
    by code_simp
  ultimately show ?thesis
    using generate_processed_filename_cases [of p] by simp
qed

section \<open>What the steps leave unchanged\<close>

lemmas cloud_defs = client_def bucket_def join_folder_def download_file_body_def download_file_def
  public_url_def get_file_url_body_def get_file_url_def upload_file_body_def upload_file_def

lemma log_event_simps [simp]:
  "rows (log_event ev w) = rows w"
  "pending (log_event ev w) = pending w"
  "disk (log_event ev w) = disk w"
  "trace (log_event ev w) = trace w @ [ev]"
  by (simp_all add: log_event_def)

lemma write_disk_simps [simp]:
  "rows (write_disk p c w) = rows w"
  "pending (write_disk p c w) = pending w"
  "disk (write_disk p c w) = (disk w)(p \<mapsto> c)"
  "trace (write_disk p c w) = trace w"
  by (simp_all add: write_disk_def)

lemma session_rollback_simps [simp]:
  "rows (session_rollback w) = rows w"
  "pending (session_rollback w) = Map.empty"
  "disk (session_rollback w) = disk w"
  "trace (session_rollback w) = trace w @ [SessionRollback]"
  by (simp_all add: session_rollback_def)

lemma cleanup_temp_files_db [simp]:
  "rows (cleanup_temp_files en ps w) = rows w"
  "pending (cleanup_temp_files en ps w) = pending w"
  by (induction ps arbitrary: w) (simp_all split: option.splits)

lemma session_first_db:
  "session_first fault rid w = (r, w') \<Longrightarrow>
     rows w' = rows w \<and> pending w' = pending w \<and> disk w' = disk w
     \<and> trace w' = trace w @ [SessionQuery rid]"
  by (auto simp: session_first_def split: option.splits)

lemma download_video_from_storage_db:
  "download_video_from_storage cfg en fname w = (r, w') \<Longrightarrow>
     rows w' = rows w \<and> pending w' = pending w \<and> disk w' = disk w"
  by (auto simp: download_video_from_storage_def Let_def split: sum.splits)

lemma process_video_with_logo_body_db:
  "process_video_with_logo_body en content fname w = (r, w') \<Longrightarrow>
     rows w' = rows w \<and> pending w' = pending w"
  by (auto simp: process_video_with_logo_body_def Let_def split: sum.splits option.splits if_splits)

lemma process_video_with_logo_db:
  "process_video_with_logo en content fname w = (r, w') \<Longrightarrow>
     rows w' = rows w \<and> pending w' = pending w"
  by (auto simp: process_video_with_logo_def split: prod.splits sum.splits
      dest: process_video_with_logo_body_db)

lemma upload_processed_video_db:
  "upload_processed_video cfg en path fname w = (r, w') \<Longrightarrow>
     rows w' = rows w \<and> pending w' = pending w \<and> disk w' = disk w"
  by (auto simp: upload_processed_video_def upload_processed_video_body_def Let_def
      split: prod.splits sum.splits option.splits if_splits)

lemma update_visit_client_record_failure:
  assumes "update_visit_client_record en rid pn pl w = (Inl e, w')"
  shows "rows w' = rows w \<and> pending w' = Map.empty \<and> disk w' = disk w
         \<and> last (trace w') = SessionRollback
         \<and> (\<exists>evs. trace w' = trace w @ evs @ [SessionRollback])"
  using assms
  by (auto simp: update_visit_client_record_def update_visit_client_record_body_def
      get_visit_client_by_id_def session_first_def session_commit_def
      split: prod.splits sum.splits option.splits)

lemma process_video_try_failure:
  assumes "process_video_try cfg en rid w = (Inl e, paths, w')"
  shows "rows w' = rows w"
  using assms
  by (auto simp: process_video_try_def get_visit_client_by_id_def Let_def
      split: prod.splits sum.splits option.splits if_splits
      dest!: session_first_db download_video_from_storage_db process_video_with_logo_db
        upload_processed_video_db update_visit_client_record_failure)

lemma process_failure_rows:
  assumes "process_video_by_visit_client_id cfg en rid w = (Inl e, w')"
  shows "rows w' = rows w"
proof -
  obtain r tv tp w1 where tr: "process_video_try cfg en rid w = (r, (tv, tp), w1)"
    by (metis prod.exhaust)
  with assms obtain e1 where r: "r = Inl e1"
    by (cases r) (auto simp: process_video_by_visit_client_id_def)
  with tr have "rows w1 = rows w" by (auto dest: process_video_try_failure)
  with assms tr r show ?thesis
    by (auto simp: process_video_by_visit_client_id_def simp del: cleanup_temp_files.simps)
qed

section \<open>Evaluating the scenario\<close>

lemmas pipeline_defs = process_video_by_visit_client_id_def process_video_try_def
  get_visit_client_by_id_def session_first_def session_commit_def session_rollback_def
  download_video_from_storage_def getattr_BUCKET_FOLDER_VIDEOS_def
  process_video_with_logo_def process_video_with_logo_body_def logo_path_def
  upload_processed_video_def upload_processed_video_body_def
  update_visit_client_record_def update_visit_client_record_body_def
  log_event_def write_disk_def session_view_def

lemmas example_defs = clip_env_def videos_config_def Config_def clip_record_def clip_world_def
  quote_def o_acute_def a_acute_def n_tilde_def

lemma clip_name: "generate_processed_filename ''clip.mp4'' = ''clip_processed.mp4''"
  by code_simp

lemma str_int_1: "str_int 1 = ''1''"
  by code_simp

lemma detect_clip: "detect_content_type ''clip_processed.mp4'' = ''video/mp4''"
  by code_simp

lemmas run_simps = pipeline_defs cloud_defs example_defs clip_name detect_clip str_int_1 Let_def

section \<open>Runs that stop before the download\<close>

lemma download_attempts_append [simp]:
  "download_attempts (xs @ ys) = download_attempts xs + download_attempts ys"
  by (induction xs rule: download_attempts.induct) simp_all

lemma process_video_try_not_found:
  assumes "session_view w rid = None" "lookup_fault en = None"
  shows "process_video_try cfg en rid w =
           (Inl (Exception (''No se encontr'' @ o_acute
                   @ '' registro de cliente en visita con ID: '' @ str_int rid)),
            (None, None), log_event (SessionQuery rid) w)"
  using assms by (simp add: process_video_try_def get_visit_client_by_id_def session_first_def)

text \<open>
  Claim C8: when the session finds no record for the identifier, the run fails with the
  not-found error (the message the code raises for an absent record, wrapped at the
  pipeline boundary), and nothing in the store is changed: the committed rows and the
  uncommitted changes are those of before, and the only calls made are the one query and
  the error log, so nothing was committed.
\<close>

theorem C8_absent_record:
  assumes "session_view w rid = None" and "lookup_fault en = None"
  shows "\<exists>w'. process_video_by_visit_client_id cfg en rid w =
           (Inl (Exception (''Error al procesar video: No se encontr'' @ o_acute
                   @ '' registro de cliente en visita con ID: '' @ str_int rid)), w')
         \<and> rows w' = rows w \<and> pending w' = pending w \<and> disk w' = disk w
         \<and> trace w' = trace w @ [SessionQuery rid,
               LoggerError (''Error en procesamiento de video: No se encontr'' @ o_acute
                   @ '' registro de cliente en visita con ID: '' @ str_int rid)]"
  using process_video_try_not_found [OF assms, of cfg]
  by (simp add: process_video_by_visit_client_id_def)

lemma process_video_try_no_video:
  assumes "session_view w rid = Some c" "lookup_fault en = None"
    "filename c = None \<or> filename c = Some [] \<or> filename_url c = None \<or> filename_url c = Some []"
  shows "process_video_try cfg en rid w =
           (Inl (Exception ''El registro no tiene un video asociado''),
            (None, None), log_event (SessionQuery rid) w)"
  using assms
  by (auto simp: process_video_try_def get_visit_client_by_id_def session_first_def
      split: option.splits)

text \<open>
  Claim C6: when the record is found and its \<^verbatim>\<open>filename\<close> or its \<^verbatim>\<open>filename_url\<close> is
  nil or empty, the run fails with the invalid-state error (the message of a record with
  no video, wrapped at the pipeline boundary) and no download is attempted: the count of
  download calls in the trace is unchanged, the only calls made being the query and the
  error log.
\<close>

theorem C6_record_without_video:
  assumes "session_view w rid = Some c" and "lookup_fault en = None"
    and "filename c = None \<or> filename c = Some [] \<or> filename_url c = None \<or> filename_url c = Some []"
  shows "\<exists>w'. process_video_by_visit_client_id cfg en rid w =
           (Inl (Exception ''Error al procesar video: El registro no tiene un video asociado''), w')
         \<and> download_attempts (trace w') = download_attempts (trace w)
         \<and> trace w' = trace w @ [SessionQuery rid,
               LoggerError ''Error en procesamiento de video: El registro no tiene un video asociado'']
         \<and> rows w' = rows w \<and> disk w' = disk w"
  using process_video_try_no_video [OF assms, of cfg]
  by (simp add: process_video_by_visit_client_id_def)

section \<open>A refused upload\<close>

lemma session_view_log [simp]: "session_view (log_event ev w) = session_view w"
  by (simp add: session_view_def)

lemma session_view_write_disk [simp]: "session_view (write_disk p c w) = session_view w"
  by (simp add: session_view_def)




lemma upload_processed_video_reported_failure:
  assumes "disk w path = Some content"
    and "upload_file cfg en \<lparr>fs_stream = content, fs_filename = fname,
           fs_content_type = ''video/mp4''\<rparr> fname None = (False, message, url)"
  shows "upload_processed_video cfg en path fname w =
           (Inl (Exception (''Error al subir video procesado: Error al subir video: '' @ message)),
            log_event (UploadFile fname) w)"
  using assms by (simp add: upload_processed_video_def upload_processed_video_body_def)

lemma process_video_with_logo_output:
  assumes "process_video_with_logo en content fname w = (Inr (tv, tp), w')"
  shows "\<exists>encoded. disk w' tp = Some encoded \<and> write_videofile en = Inr encoded"
  using assms
  by (auto simp: process_video_with_logo_def process_video_with_logo_body_def Let_def
      split: prod.splits sum.splits option.splits if_splits)

text \<open>
  Claim C7: in a run that reaches the upload (the record is found with a file name and
  URL, the download and the composition succeed, the processed file is on disk), when
  \<^verbatim>\<open>upload_file\<close> answers with \<^verbatim>\<open>False\<close> and a message, the run fails with the upload
  error that ends with the store's message, and the stored rows, hence the
  \<^verbatim>\<open>file_status\<close> of the record, are those of before the call.
\<close>

theorem C7_upload_reports_failure:
  assumes "session_view w rid = Some c" and "lookup_fault en = None"
    and "filename c = Some fname" and "fname \<noteq> []"
    and "filename_url c = Some furl" and "furl \<noteq> []"
    and "download_video_from_storage cfg en fname (log_event (SessionQuery rid) w)
           = (Inr content, w2)"
    and "process_video_with_logo en content fname w2 = (Inr (tv, tp), w3)"
    and "disk w3 tp = Some encoded"
    and "upload_file cfg en \<lparr>fs_stream = encoded,
           fs_filename = generate_processed_filename fname,
           fs_content_type = ''video/mp4''\<rparr> (generate_processed_filename fname) None
           = (False, message, url)"
  shows "\<exists>w'. process_video_by_visit_client_id cfg en rid w =
           (Inl (Exception (''Error al procesar video: Error al subir video procesado: ''
                            @ ''Error al subir video: '' @ message)), w')
         \<and> rows w' = rows w
         \<and> map_option file_status (rows w' rid) = map_option file_status (rows w rid)"
proof -
  let ?pn = "generate_processed_filename fname"
  have up: "upload_processed_video cfg en tp ?pn w3 =
           (Inl (Exception (''Error al subir video procesado: Error al subir video: '' @ message)),
            log_event (UploadFile ?pn) w3)"
    using assms(9,10) by (rule upload_processed_video_reported_failure)
  have tr: "process_video_try cfg en rid w =
           (Inl (Exception (''Error al subir video procesado: Error al subir video: '' @ message)),
            (Some tv, Some tp), log_event (UploadFile ?pn) w3)"
    using assms(1-8) up
    by (simp add: process_video_try_def get_visit_client_by_id_def session_first_def Let_def)
  have r2: "rows w2 = rows w"
    using download_video_from_storage_db [OF assms(7)] by simp
  have r3: "rows w3 = rows w2"
    using process_video_with_logo_db [OF assms(8)] by simp
  show ?thesis
    using tr r2 r3
    by (simp add: process_video_by_visit_client_id_def del: cleanup_temp_files.simps)
qed

section \<open>Successful runs\<close>

lemma upload_file_success_url:
  assumes "upload_file cfg en file fname folder = (True, message, url)"
  shows "\<exists>u. url = Some u \<and> message = ''Archivo subido exitosamente''"
  using assms
  by (auto simp: upload_file_def upload_file_body_def Let_def
      split: sum.splits pyexc.splits if_splits option.splits)

lemma upload_processed_video_success:
  assumes "upload_processed_video cfg en path fname w = (Inr link, w')"
  shows "\<exists>content u. disk w path = Some content
           \<and> upload_file cfg en \<lparr>fs_stream = content, fs_filename = fname,
                 fs_content_type = ''video/mp4''\<rparr> fname None
               = (True, ''Archivo subido exitosamente'', Some u)
           \<and> link = Some u \<and> w' = log_event (UploadFile fname) w"
  using assms
  by (auto simp: upload_processed_video_def upload_processed_video_body_def Let_def
      split: prod.splits sum.splits option.splits if_splits
      dest: upload_file_success_url)

lemma update_visit_client_record_success:
  assumes "update_visit_client_record en rid pn pl w = (Inr u, w')"
  shows "\<exists>c. session_view w rid = Some c \<and> refetch_fault en = None \<and> commit_fault en = None
           \<and> rows w' = (session_view w)(rid \<mapsto>
                c\<lparr>filename_processed := Some pn, filename_url_processed := pl,
                  file_status := Some ''Procesado'', updated_at := utcnow en\<rparr>)
           \<and> pending w' = Map.empty \<and> disk w' = disk w
           \<and> trace w' = trace w @ [SessionQuery rid, SessionCommit]"
  using assms
  by (auto simp: update_visit_client_record_def update_visit_client_record_body_def
      get_visit_client_by_id_def session_first_def session_commit_def session_view_def
      split: prod.splits sum.splits option.splits)


lemma process_video_try_success:
  assumes "process_video_try cfg en rid w = (Inr r, paths, w')"
  shows "\<exists>c fname furl content w2 tv tp w3 link w4.
           session_view w rid = Some c \<and> lookup_fault en = None
         \<and> filename c = Some fname \<and> fname \<noteq> []
         \<and> filename_url c = Some furl \<and> furl \<noteq> []
         \<and> download_video_from_storage cfg en fname (log_event (SessionQuery rid) w)
              = (Inr content, w2)
         \<and> process_video_with_logo en content fname w2 = (Inr (tv, tp), w3)
         \<and> upload_processed_video cfg en tp (generate_processed_filename fname) w3
              = (Inr link, w4)
         \<and> update_visit_client_record en rid (generate_processed_filename fname) link w4
              = (Inr (), w')
         \<and> r = \<lparr>visit_client_id = rid, original_filename = fname,
                  processed_filename = generate_processed_filename fname,
                  processed_url = link, status = ''Procesado''\<rparr>
         \<and> paths = (Some tv, Some tp)"
  using assms
  by (auto simp: process_video_try_def get_visit_client_by_id_def session_first_def Let_def
      split: prod.splits sum.splits option.splits if_splits)

lemma process_success_try:
  assumes "process_video_by_visit_client_id cfg en rid w = (Inr r, w')"
  shows "\<exists>tv tp w5. process_video_try cfg en rid w = (Inr r, (tv, tp), w5)
           \<and> w' = cleanup_temp_files en [tv, tp] w5"
proof -
  obtain x tv tp w5 where tr: "process_video_try cfg en rid w = (x, (tv, tp), w5)"
    by (metis prod.exhaust)
  with assms show ?thesis
    by (cases x) (auto simp: process_video_by_visit_client_id_def
        simp del: cleanup_temp_files.simps)
qed

text \<open>
  What holds of every successful run: the record has a non-empty source file name; the
  stored record carries the marker \<^verbatim>\<open>Procesado\<close>, the derived name, which is not empty,
  and as URL the third component of the answer \<^verbatim>\<open>upload_file\<close> gave for the encoded
  file; the result has the status \<^verbatim>\<open>Procesado\<close> and no other, the identifier asked for,
  the original name, the stored URL and the derived name. The URL is
  \<^verbatim>\<open>get_file_url\<close>'s: it is not empty whenever the store does not deny the blob it has
  just accepted and signs with a non-empty URL.
\<close>

lemma public_url_nonempty: "public_url cfg target fname \<noteq> []"
  by (simp add: public_url_def)

lemma get_file_url_nonempty:
  assumes "get_file_url cfg en fname (Some target) = Inr u"
    and "blob_exists en (target @ ''/'' @ fname) \<noteq> Inr False"
    and "\<forall>s. generate_signed_url en (target @ ''/'' @ fname) = Inr s \<longrightarrow> s \<noteq> []"
  shows "u \<noteq> []"
  using assms public_url_nonempty [of cfg target fname]
  by (auto simp: get_file_url_def get_file_url_body_def Let_def
      split: sum.splits bool.splits)

lemma upload_file_answer:
  assumes "upload_file cfg en file fname None = (True, message, Some u)"
  shows "blob_upload_from_file en (BUCKET_FOLDER cfg @ ''/'' @ fname)
           (detect_content_type (fs_filename file)) = None
         \<and> get_file_url cfg en fname (Some (BUCKET_FOLDER cfg)) = Inr u"
  using assms
  by (auto simp: upload_file_def upload_file_body_def Let_def
      split: sum.splits pyexc.splits if_splits option.splits)

lemma successful_run_fields:
  assumes "process_video_by_visit_client_id cfg en rid w = (Inr r, w')"
  shows "\<exists>c c' url encoded.
           session_view w rid = Some c
         \<and> filename c = Some (original_filename r) \<and> original_filename r \<noteq> []
         \<and> rows w' rid = Some c'
         \<and> file_status c' = Some ''Procesado''
         \<and> filename_processed c' = Some (processed_filename r)
         \<and> processed_filename r \<noteq> []
         \<and> write_videofile en = Inr encoded
         \<and> upload_file cfg en \<lparr>fs_stream = encoded, fs_filename = processed_filename r,
               fs_content_type = ''video/mp4''\<rparr> (processed_filename r) None
             = (True, ''Archivo subido exitosamente'', Some url)
         \<and> filename_url_processed c' = Some url \<and> processed_url r = Some url
         \<and> status r = ''Procesado''
         \<and> processed_filename r = generate_processed_filename (original_filename r)
         \<and> visit_client_id r = rid"
proof -
  from process_success_try [OF assms] obtain tv tp w5 where
    tr: "process_video_try cfg en rid w = (Inr r, (tv, tp), w5)"
    and w': "w' = cleanup_temp_files en [tv, tp] w5" by blast
  from process_video_try_success [OF tr] obtain c fname furl content w2 tv' tp' w3 link w4 where
    c: "session_view w rid = Some c" "filename c = Some fname" "fname \<noteq> []"
    and pl: "process_video_with_logo en content fname w2 = (Inr (tv', tp'), w3)"
    and up: "upload_processed_video cfg en tp' (generate_processed_filename fname) w3
              = (Inr link, w4)"
    and upd: "update_visit_client_record en rid (generate_processed_filename fname) link w4
              = (Inr (), w5)"
    and r: "r = \<lparr>visit_client_id = rid, original_filename = fname,
                  processed_filename = generate_processed_filename fname,
                  processed_url = link, status = ''Procesado''\<rparr>"
    by blast
  from process_video_with_logo_output [OF pl] obtain encoded where
    enc: "disk w3 tp' = Some encoded" "write_videofile en = Inr encoded" by blast
  from upload_processed_video_success [OF up] enc(1) obtain u where
    link: "link = Some u"
    and ans: "upload_file cfg en \<lparr>fs_stream = encoded,
                 fs_filename = generate_processed_filename fname,
                 fs_content_type = ''video/mp4''\<rparr> (generate_processed_filename fname) None
               = (True, ''Archivo subido exitosamente'', Some u)"
    by auto
  from update_visit_client_record_success [OF upd] obtain c4 where
    rows5: "rows w5 = (session_view w4)(rid \<mapsto>
                c4\<lparr>filename_processed := Some (generate_processed_filename fname),
                  filename_url_processed := link,
                  file_status := Some ''Procesado'', updated_at := utcnow en\<rparr>)"
    by blast
  have ne: "generate_processed_filename fname \<noteq> []"
    by (simp add: generate_processed_filename_def)
  show ?thesis
    using c r link rows5 ne w' enc(2) ans
    by (simp del: cleanup_temp_files.simps)
qed

lemma successful_run_url_nonempty:
  assumes run: "process_video_by_visit_client_id cfg en rid w = (Inr r, w')"
    and exists: "blob_exists en (BUCKET_FOLDER cfg @ ''/'' @ processed_filename r) \<noteq> Inr False"
    and signed: "\<forall>s. generate_signed_url en (BUCKET_FOLDER cfg @ ''/'' @ processed_filename r)
                     = Inr s \<longrightarrow> s \<noteq> []"
  shows "\<exists>c' url. rows w' rid = Some c'
           \<and> filename_url_processed c' = Some url \<and> processed_url r = Some url \<and> url \<noteq> []
           \<and> filename_processed c' = Some (processed_filename r) \<and> processed_filename r \<noteq> []
           \<and> file_status c' = Some ''Procesado''"
proof -
  from successful_run_fields [OF run] obtain c' url encoded where
    f: "rows w' rid = Some c'" "file_status c' = Some ''Procesado''"
       "filename_processed c' = Some (processed_filename r)" "processed_filename r \<noteq> []"
       "filename_url_processed c' = Some url" "processed_url r = Some url"
    and ans: "upload_file cfg en \<lparr>fs_stream = encoded, fs_filename = processed_filename r,
               fs_content_type = ''video/mp4''\<rparr> (processed_filename r) None
             = (True, ''Archivo subido exitosamente'', Some url)"
    by blast
  from upload_file_answer [OF ans]
  have "get_file_url cfg en (processed_filename r) (Some (BUCKET_FOLDER cfg)) = Inr url"
    by simp
  from get_file_url_nonempty [OF this exists signed] have "url \<noteq> []" .
  with f show ?thesis by simp
qed

section \<open>Running again\<close>





lemma session_view_cleanup [simp]:
  "session_view (cleanup_temp_files en ps w) = session_view w"
  by (simp add: session_view_def)


section \<open>Failed runs\<close>

text \<open>
  Claim C1: when a run fails, at whatever step, the committed rows are exactly those of
  before the call, so the \<^verbatim>\<open>file_status\<close> of the record is the one it had; the success
  marker is written only by the commit that ends the last step. And when the persistence
  step fails, it returns its error only after the rollback: the rollback is the last call
  made, the uncommitted changes are dropped, the rows are unchanged.
\<close>

theorem C1_failed_run_keeps_record:
  "(process_video_by_visit_client_id cfg en rid w = (Inl e, w') \<longrightarrow>
      rows w' = rows w
      \<and> map_option file_status (rows w' rid) = map_option file_status (rows w rid))
   \<and> (update_visit_client_record en rid pn pl w = (Inl e2, w2) \<longrightarrow>
      rows w2 = rows w \<and> pending w2 = Map.empty \<and> last (trace w2) = SessionRollback)"
proof (intro conjI impI)
  assume a: "process_video_by_visit_client_id cfg en rid w = (Inl e, w')"
  then show "rows w' = rows w" by (rule process_failure_rows)
  then show "map_option file_status (rows w' rid) = map_option file_status (rows w rid)"
    by simp
next
  assume "update_visit_client_record en rid pn pl w = (Inl e2, w2)"
  from update_visit_client_record_failure [OF this]
  show "rows w2 = rows w" "pending w2 = Map.empty" "last (trace w2) = SessionRollback"
    by simp_all
qed

lemma run_commit_fault:
  "fst (process_video_by_visit_client_id videos_config
          (clip_env\<lparr>commit_fault := Some (OtherError ''db down'')\<rparr>) 1 clip_world)
     = Inl (Exception ''Error al procesar video: Error al actualizar registro: db down'')"
  by (simp add: run_simps)

lemma update_commit_fault:
  "fst (update_visit_client_record (clip_env\<lparr>commit_fault := Some (OtherError ''db down'')\<rparr>) 1
          ''clip_processed.mp4'' (Some ''https://x/clip_processed.mp4'') clip_world)
     = Inl (Exception ''Error al actualizar registro: db down'')"
  by (simp add: run_simps)

text \<open>
  Claim C1 at the scenario with a commit that raises: the run fails with the error of the
  persistence step, the rows are those of the scenario, and the persistence step ends with
  the rollback.
\<close>

theorem C1_failed_run_keeps_record_witness:
  "fst (process_video_by_visit_client_id videos_config
          (clip_env\<lparr>commit_fault := Some (OtherError ''db down'')\<rparr>) 1 clip_world)
     = Inl (Exception ''Error al procesar video: Error al actualizar registro: db down'')
   \<and> rows (snd (process_video_by_visit_client_id videos_config
          (clip_env\<lparr>commit_fault := Some (OtherError ''db down'')\<rparr>) 1 clip_world))
     = rows clip_world
   \<and> fst (update_visit_client_record (clip_env\<lparr>commit_fault := Some (OtherError ''db down'')\<rparr>) 1
          ''clip_processed.mp4'' (Some ''https://x/clip_processed.mp4'') clip_world)
     = Inl (Exception ''Error al actualizar registro: db down'')
   \<and> last (trace (snd (update_visit_client_record
          (clip_env\<lparr>commit_fault := Some (OtherError ''db down'')\<rparr>) 1
          ''clip_processed.mp4'' (Some ''https://x/clip_processed.mp4'') clip_world)))
     = SessionRollback"
proof -
  let ?en = "clip_env\<lparr>commit_fault := Some (OtherError ''db down'')\<rparr>"
  let ?p = "process_video_by_visit_client_id videos_config ?en 1 clip_world"
  let ?u = "update_visit_client_record ?en 1 ''clip_processed.mp4''
              (Some ''https://x/clip_processed.mp4'') clip_world"
  have p: "?p = (Inl (Exception ''Error al procesar video: Error al actualizar registro: db down''),
                 snd ?p)"
    using run_commit_fault by (simp add: prod_eq_iff)
  have u: "?u = (Inl (Exception ''Error al actualizar registro: db down''), snd ?u)"
    using update_commit_fault by (simp add: prod_eq_iff)
  from C1_failed_run_keeps_record [of videos_config ?en 1 clip_world _ "snd ?p"
      "''clip_processed.mp4''" "Some ''https://x/clip_processed.mp4''" _ "snd ?u"] p u
  have "rows (snd ?p) = rows clip_world" "last (trace (snd ?u)) = SessionRollback"
    by blast+
  with run_commit_fault update_commit_fault show ?thesis by simp
qed

section \<open>Temporary files\<close>

text \<open>
  What the clean-up does achieve: when the run succeeds, each of the two temporary files
  whose removal does not raise is gone when the call returns.
\<close>

lemma cleanup_temp_files_removes:
  assumes "os_remove en p = None" "p \<noteq> []"
  shows "disk (cleanup_temp_files en [Some p, Some q] w) p = None"
    and "disk (cleanup_temp_files en [Some q, Some p] w) p = None"
  using assms by (auto split: option.splits)

lemma process_video_with_logo_paths:
  assumes "process_video_with_logo en content fname w = (Inr (tv, tp), w')"
  shows "temp_video en = Inr tv \<and> temp_processed en = Inr tp"
  using assms
  by (auto simp: process_video_with_logo_def process_video_with_logo_body_def Let_def
      split: prod.splits sum.splits option.splits if_splits)

lemma successful_run_removes_temporary_files:
  assumes "process_video_by_visit_client_id cfg en rid w = (Inr r, w')"
  shows "\<exists>tv tp. temp_video en = Inr tv \<and> temp_processed en = Inr tp
           \<and> (os_remove en tv = None \<and> tv \<noteq> [] \<longrightarrow> disk w' tv = None)
           \<and> (os_remove en tp = None \<and> tp \<noteq> [] \<longrightarrow> disk w' tp = None)"
proof -
  from process_success_try [OF assms] obtain tv0 tp0 w5 where
    tr: "process_video_try cfg en rid w = (Inr r, (tv0, tp0), w5)"
    and w': "w' = cleanup_temp_files en [tv0, tp0] w5" by blast
  from process_video_try_success [OF tr] obtain content fname w2 tv tp w3 where
    pl: "process_video_with_logo en content fname w2 = (Inr (tv, tp), w3)"
    and paths: "(tv0, tp0) = (Some tv, Some tp)" by blast
  from process_video_with_logo_paths [OF pl] paths w' show ?thesis
    using cleanup_temp_files_removes [of en tv tp w5] cleanup_temp_files_removes [of en tp tv w5]
    by (auto simp del: cleanup_temp_files.simps)
qed

lemma run_without_logo:
  "process_video_by_visit_client_id videos_config clip_env 1 (clip_world\<lparr>disk := Map.empty\<rparr>)
     = (Inl (Exception (''Error al procesar video: Error al procesar video: ''
                        @ ''Logo no encontrado en: /app/resources/logoMedisupply.png'')),
        \<lparr> rows = [1 \<mapsto> clip_record], pending = Map.empty,
          disk = [''/tmp/a.mp4'' \<mapsto> [0, 1, 2, 3, 4, 5, 6, 7, 8, 9]],
          trace = [SessionQuery 1, DownloadFile ''clip.mp4'' ''videos'',
                   LoggerError (''Error en procesamiento de video: Error al procesar video: ''
                        @ ''Logo no encontrado en: /app/resources/logoMedisupply.png'')] \<rparr>)"
  by (simp add: run_simps)

text \<open>
  Claim C2 at a run whose composition fails: the record has a video and the download
  succeeds, but the branding image is not on disk. The first temporary file is created and
  filled before the image is looked for; the method then raises, its paths never reach
  the caller, and the clean-up, which runs, is given two unset paths. The run fails, the
  temporary file that did not exist before the call exists after it, and no removal was
  attempted on it. The claim says that both temporary files are gone when the call
  returns, whether it succeeded or failed.
\<close>

theorem C2_temporary_file_left_behind:
  "fst (process_video_by_visit_client_id videos_config clip_env 1
          (clip_world\<lparr>disk := Map.empty\<rparr>))
     = Inl (Exception (''Error al procesar video: Error al procesar video: ''
                        @ ''Logo no encontrado en: /app/resources/logoMedisupply.png''))
   \<and> disk (clip_world\<lparr>disk := Map.empty\<rparr>) ''/tmp/a.mp4'' = None
   \<and> disk (snd (process_video_by_visit_client_id videos_config clip_env 1
          (clip_world\<lparr>disk := Map.empty\<rparr>))) ''/tmp/a.mp4''
     = Some [0, 1, 2, 3, 4, 5, 6, 7, 8, 9]
   \<and> OsRemove ''/tmp/a.mp4'' \<notin> set (trace (snd (process_video_by_visit_client_id
          videos_config clip_env 1 (clip_world\<lparr>disk := Map.empty\<rparr>))))"
  by (simp add: run_without_logo)

section \<open>The download folder\<close>

lemma run_with_Config:
  "process_video_by_visit_client_id Config clip_env 1 clip_world
     = (Inl (Exception (''Error al procesar video: Error al descargar video desde Cloud Storage: ''
              @ quote @ ''Config'' @ quote @ '' object has no attribute ''
              @ quote @ ''BUCKET_FOLDER_VIDEOS'' @ quote)),
        clip_world\<lparr>trace := [SessionQuery 1,
           LoggerError (''Error en procesamiento de video: ''
              @ ''Error al descargar video desde Cloud Storage: ''
              @ quote @ ''Config'' @ quote @ '' object has no attribute ''
              @ quote @ ''BUCKET_FOLDER_VIDEOS'' @ quote)]\<rparr>)"
  by (simp add: run_simps)

text \<open>
  Claim C5 at the configuration the application builds, \<open>Config\<close>: it has no
  \<^verbatim>\<open>BUCKET_FOLDER_VIDEOS\<close>, so for a record with a video the download step raises the
  attribute error, wrapped as a download error, before any call to the store: the run
  fails and the trace holds no download. The claim says that the download step retrieves
  the bytes from the videos folder in every run.
\<close>

theorem C5_Config_lacks_videos_folder:
  "BUCKET_FOLDER_VIDEOS Config = None
   \<and> fst (process_video_by_visit_client_id Config clip_env 1 clip_world)
     = Inl (Exception (''Error al procesar video: Error al descargar video desde Cloud Storage: ''
              @ quote @ ''Config'' @ quote @ '' object has no attribute ''
              @ quote @ ''BUCKET_FOLDER_VIDEOS'' @ quote))
   \<and> download_attempts (trace (snd (process_video_by_visit_client_id Config clip_env 1
          clip_world))) = 0"
  by (simp add: run_with_Config) (simp add: Config_def)

lemma download_video_from_storage_configured:
  assumes "BUCKET_FOLDER_VIDEOS cfg = Some folder"
  shows "download_video_from_storage cfg en fname w =
           (case download_file cfg en fname (Some folder) of
              Inl e \<Rightarrow> Inl (Exception (''Error al descargar video desde Cloud Storage: ''
                                       @ str_exc e))
            | Inr video_content \<Rightarrow> Inr video_content,
            log_event (DownloadFile fname folder) w)"
  using assms
  by (simp add: download_video_from_storage_def getattr_BUCKET_FOLDER_VIDEOS_def
      split: sum.splits)

section \<open>The scenario and its variations\<close>

lemma run_blob_gone:
  "fst (process_video_by_visit_client_id videos_config blob_gone_env 1 clip_world)
     = Inr \<lparr>visit_client_id = 1, original_filename = ''clip.mp4'',
            processed_filename = ''clip_processed.mp4'',
            processed_url = Some [], status = ''Procesado''\<rparr>"
  "rows (snd (process_video_by_visit_client_id videos_config blob_gone_env 1 clip_world)) 1
     = Some (clip_record\<lparr>filename_processed := Some ''clip_processed.mp4'',
               filename_url_processed := Some [],
               file_status := Some ''Procesado'', updated_at := 100\<rparr>)"
  by (simp_all add: run_simps blob_gone_env_def)

lemma run_blob_gone_store:
  "blob_upload_from_file blob_gone_env ''sales-plan/clip_processed.mp4'' ''video/mp4'' = None"
  "blob_exists blob_gone_env ''sales-plan/clip_processed.mp4'' = Inr False"
  "upload_file videos_config blob_gone_env
      \<lparr>fs_stream = [9, 9], fs_filename = ''clip_processed.mp4'',
        fs_content_type = ''video/mp4''\<rparr> ''clip_processed.mp4'' None
     = (True, ''Archivo subido exitosamente'', Some [])"
  by (simp_all add: run_simps blob_gone_env_def)

text \<open>
  Claim C3 at a run whose store accepts the upload and then answers the existence check
  on the uploaded blob with false: \<^verbatim>\<open>get_file_url\<close> returns the empty string,
  \<^verbatim>\<open>upload_file\<close> reports success with it, and the run succeeds, returns the empty URL
  and commits the success marker with an empty \<^verbatim>\<open>filename_url_processed\<close>. The claim
  says that a successful run sets both processed fields to non-empty values.
\<close>

theorem C3_success_with_empty_url:
  "blob_upload_from_file blob_gone_env ''sales-plan/clip_processed.mp4'' ''video/mp4'' = None
   \<and> blob_exists blob_gone_env ''sales-plan/clip_processed.mp4'' = Inr False
   \<and> upload_file videos_config blob_gone_env
        \<lparr>fs_stream = [9, 9], fs_filename = ''clip_processed.mp4'',
          fs_content_type = ''video/mp4''\<rparr> ''clip_processed.mp4'' None
       = (True, ''Archivo subido exitosamente'', Some [])
   \<and> fst (process_video_by_visit_client_id videos_config blob_gone_env 1 clip_world)
       = Inr \<lparr>visit_client_id = 1, original_filename = ''clip.mp4'',
              processed_filename = ''clip_processed.mp4'',
              processed_url = Some [], status = ''Procesado''\<rparr>
   \<and> map_option filename_url_processed
        (rows (snd (process_video_by_visit_client_id videos_config blob_gone_env 1 clip_world)) 1)
       = Some (Some [])
   \<and> map_option file_status
        (rows (snd (process_video_by_visit_client_id videos_config blob_gone_env 1 clip_world)) 1)
       = Some (Some ''Procesado'')"
  by (simp add: run_blob_gone run_blob_gone_store)

lemma run_clip:
  "fst (process_video_by_visit_client_id videos_config clip_env 1 clip_world)
     = Inr \<lparr>visit_client_id = 1, original_filename = ''clip.mp4'',
            processed_filename = ''clip_processed.mp4'',
            processed_url = Some ''https://x/clip_processed.mp4'', status = ''Procesado''\<rparr>"
  "rows (snd (process_video_by_visit_client_id videos_config clip_env 1 clip_world)) 1
     = Some (clip_record\<lparr>filename_processed := Some ''clip_processed.mp4'',
               filename_url_processed := Some ''https://x/clip_processed.mp4'',
               file_status := Some ''Procesado'', updated_at := 100\<rparr>)"
  "disk (snd (process_video_by_visit_client_id videos_config clip_env 1 clip_world))
     = [''/app/resources/logoMedisupply.png'' \<mapsto> [7]]"
  by (simp_all add: run_simps fun_eq_iff)

text \<open>
  The scenario of the specification: the run succeeds with the result the specification
  lists, and the stored record has the marker, the derived name and the URL.
\<close>

lemma successful_run_at_scenario:
  "fst (process_video_by_visit_client_id videos_config clip_env 1 clip_world)
     = Inr \<lparr>visit_client_id = 1, original_filename = ''clip.mp4'',
            processed_filename = ''clip_processed.mp4'',
            processed_url = Some ''https://x/clip_processed.mp4'', status = ''Procesado''\<rparr>
   \<and> (\<exists>c'. rows (snd (process_video_by_visit_client_id videos_config clip_env 1 clip_world)) 1
              = Some c'
         \<and> file_status c' = Some ''Procesado''
         \<and> filename_processed c' = Some ''clip_processed.mp4''
         \<and> filename_url_processed c' = Some ''https://x/clip_processed.mp4'')"
proof -
  let ?p = "process_video_by_visit_client_id videos_config clip_env 1 clip_world"
  let ?r = "\<lparr>visit_client_id = 1, original_filename = ''clip.mp4'',
            processed_filename = ''clip_processed.mp4'',
            processed_url = Some ''https://x/clip_processed.mp4'', status = ''Procesado''\<rparr>"
  have p: "?p = (Inr ?r, snd ?p)"
    using run_clip(1) by (simp add: prod_eq_iff)
  have e: "blob_exists clip_env (BUCKET_FOLDER videos_config @ ''/'' @ processed_filename ?r)
             \<noteq> Inr False"
    by (simp add: clip_env_def)
  have s: "\<forall>s. generate_signed_url clip_env
               (BUCKET_FOLDER videos_config @ ''/'' @ processed_filename ?r) = Inr s \<longrightarrow> s \<noteq> []"
    by (simp add: clip_env_def)
  from successful_run_url_nonempty [OF p e s] run_clip(1) show ?thesis by auto
qed

text \<open>
  Claim C8 at the scenario, asked for record 2, which the table does not have.
\<close>

theorem C8_absent_record_witness:
  "session_view clip_world 2 = None \<and> lookup_fault clip_env = None
   \<and> (\<exists>w'. process_video_by_visit_client_id videos_config clip_env 2 clip_world =
           (Inl (Exception (''Error al procesar video: No se encontr'' @ o_acute
                   @ '' registro de cliente en visita con ID: '' @ str_int 2)), w')
         \<and> rows w' = rows clip_world \<and> pending w' = pending clip_world)"
proof -
  have h1: "session_view clip_world 2 = None"
    by (simp add: session_view_def clip_world_def)
  have h2: "lookup_fault clip_env = None"
    by (simp add: clip_env_def)
  from C8_absent_record [OF h1 h2, of videos_config] h1 h2 show ?thesis by blast
qed

text \<open>
  Claim C6 at the scenario with the file name of record 1 emptied.
\<close>

theorem C6_record_without_video_witness:
  "session_view no_video_world 1 = Some (clip_record\<lparr>filename := Some []\<rparr>)
   \<and> lookup_fault clip_env = None
   \<and> (\<exists>w'. process_video_by_visit_client_id videos_config clip_env 1 no_video_world =
           (Inl (Exception ''Error al procesar video: El registro no tiene un video asociado''), w')
         \<and> download_attempts (trace w') = download_attempts (trace no_video_world))"
proof -
  have h1: "session_view no_video_world 1 = Some (clip_record\<lparr>filename := Some []\<rparr>)"
    by (simp add: session_view_def no_video_world_def clip_world_def)
  have h2: "lookup_fault clip_env = None"
    by (simp add: clip_env_def)
  have h3: "filename (clip_record\<lparr>filename := Some []\<rparr>) = None
      \<or> filename (clip_record\<lparr>filename := Some []\<rparr>) = Some []
      \<or> filename_url (clip_record\<lparr>filename := Some []\<rparr>) = None
      \<or> filename_url (clip_record\<lparr>filename := Some []\<rparr>) = Some []"
    by simp
  from C6_record_without_video [OF h1 h2 h3, of videos_config] h1 h2 show ?thesis by blast
qed

text \<open>
  Claim C7 at the scenario with a store that refuses the upload: \<^verbatim>\<open>upload_file\<close> answers
  \<^verbatim>\<open>False\<close> with the store's message, and the run fails with the upload error carrying
  it, the rows unchanged.
\<close>

theorem C7_upload_reports_failure_witness:
  "upload_file videos_config quota_env
      \<lparr>fs_stream = [9, 9], fs_filename = ''clip_processed.mp4'',
        fs_content_type = ''video/mp4''\<rparr> ''clip_processed.mp4'' None
     = (False, ''Error de Google Cloud Storage: quota'', None)
   \<and> (\<exists>w'. process_video_by_visit_client_id videos_config quota_env 1 clip_world =
           (Inl (Exception (''Error al procesar video: Error al subir video procesado: ''
                            @ ''Error al subir video: Error de Google Cloud Storage: quota'')), w')
         \<and> rows w' = rows clip_world)"
proof -
  let ?w1 = "log_event (SessionQuery 1) clip_world"
  let ?content = "[0, 1, 2, 3, 4, 5, 6, 7, 8, 9] :: bytes"
  let ?d = "download_video_from_storage videos_config quota_env ''clip.mp4'' ?w1"
  let ?c = "process_video_with_logo quota_env ?content ''clip.mp4'' (snd ?d)"
  have h1: "session_view clip_world 1 = Some clip_record"
    by (simp add: session_view_def clip_world_def)
  have h2: "lookup_fault quota_env = None"
    by (simp add: quota_env_def clip_env_def)
  have h3: "filename clip_record = Some ''clip.mp4''" "''clip.mp4'' \<noteq> []"
    "filename_url clip_record = Some ''https://x/clip.mp4''" "''https://x/clip.mp4'' \<noteq> []"
    by (simp_all add: clip_record_def)
  have "fst ?d = Inr ?content"
    by (simp add: run_simps quota_env_def)
  then have h4: "?d = (Inr ?content, snd ?d)" by (simp add: prod_eq_iff)
  have "fst ?c = Inr (''/tmp/a.mp4'', ''/tmp/b_processed.mp4'')"
    by (simp add: run_simps quota_env_def)
  then have h5: "?c = (Inr (''/tmp/a.mp4'', ''/tmp/b_processed.mp4''), snd ?c)"
    by (simp add: prod_eq_iff)
  have h6: "disk (snd ?c) ''/tmp/b_processed.mp4'' = Some [9, 9]"
    by (simp add: run_simps quota_env_def)
  have h7: "upload_file videos_config quota_env
      \<lparr>fs_stream = [9, 9], fs_filename = generate_processed_filename ''clip.mp4'',
        fs_content_type = ''video/mp4''\<rparr> (generate_processed_filename ''clip.mp4'') None
     = (False, ''Error de Google Cloud Storage: quota'', None)"
    by (simp add: run_simps quota_env_def)
  from C7_upload_reports_failure [OF h1 h2 h3 h4 h5 h6 h7] h7 show ?thesis
    by (auto simp: clip_name)
qed


section \<open>The access URL\<close>

lemma get_file_url_returns: "\<exists>u. get_file_url cfg en fname folder = Inr u"
  by (simp add: get_file_url_def Let_def split: sum.splits)

lemma get_file_url_fallback:
  "get_file_url_body cfg en fname target = Inl e \<Longrightarrow>
     get_file_url cfg en fname (Some target) = Inr (public_url cfg target fname)"
  by (simp add: get_file_url_def public_url_def)

lemma get_file_url_sign_fails:
  "bucket cfg en = Inr () \<Longrightarrow> blob_exists en (target @ ''/'' @ fname) = Inr True \<Longrightarrow>
   generate_signed_url en (target @ ''/'' @ fname) = Inl e \<Longrightarrow>
     get_file_url cfg en fname (Some target) = Inr (public_url cfg target fname)"
  by (simp add: get_file_url_def get_file_url_body_def public_url_def)

lemma get_file_url_blob_missing:
  "bucket cfg en = Inr () \<Longrightarrow> blob_exists en (target @ ''/'' @ fname) = Inr False \<Longrightarrow>
     get_file_url cfg en fname (Some target) = Inr []"
  by (simp add: get_file_url_def get_file_url_body_def)

lemma run_upload_lost:
  "upload_file videos_config upload_lost_env
      \<lparr>fs_stream = [9, 9], fs_filename = ''clip_processed.mp4'',
        fs_content_type = ''video/mp4''\<rparr> ''clip_processed.mp4'' None
     = (True, ''Archivo subido exitosamente'', Some [])"
  "fst (process_video_by_visit_client_id videos_config upload_lost_env 1 clip_world)
     = Inr \<lparr>visit_client_id = 1, original_filename = ''clip.mp4'',
            processed_filename = ''clip_processed.mp4'',
            processed_url = Some [], status = ''Procesado''\<rparr>"
  "rows (snd (process_video_by_visit_client_id videos_config upload_lost_env 1 clip_world)) 1
     = Some (clip_record\<lparr>filename_processed := Some ''clip_processed.mp4'',
               filename_url_processed := Some [],
               file_status := Some ''Procesado'', updated_at := 100\<rparr>)"
  by (simp_all add: run_simps upload_lost_env_def)

text \<open>
  Claim C10: \<^verbatim>\<open>get_file_url\<close> always returns a string; when anything in its body raises,
  and in particular when the blob exists and signing raises, the string is the public URL
  of the blob; when the existence check answers false it is the empty string. And there
  is an execution (the store reports the uploaded blob absent) in which \<^verbatim>\<open>upload_file\<close>
  answers \<^verbatim>\<open>True\<close> with the empty URL and the run succeeds, committing the success
  marker with an empty \<^verbatim>\<open>filename_url_processed\<close>.
\<close>

theorem C10_access_url_never_raises:
  "(\<exists>u. get_file_url cfg en fname folder = Inr u)
   \<and> (get_file_url_body cfg en fname target = Inl e \<longrightarrow>
        get_file_url cfg en fname (Some target) = Inr (public_url cfg target fname))
   \<and> (bucket cfg en = Inr () \<and> blob_exists en (target @ ''/'' @ fname) = Inr True
        \<and> generate_signed_url en (target @ ''/'' @ fname) = Inl e' \<longrightarrow>
        get_file_url cfg en fname (Some target) = Inr (public_url cfg target fname))
   \<and> (bucket cfg en = Inr () \<and> blob_exists en (target @ ''/'' @ fname) = Inr False \<longrightarrow>
        get_file_url cfg en fname (Some target) = Inr [])
   \<and> upload_file videos_config upload_lost_env
        \<lparr>fs_stream = [9, 9], fs_filename = ''clip_processed.mp4'',
          fs_content_type = ''video/mp4''\<rparr> ''clip_processed.mp4'' None
       = (True, ''Archivo subido exitosamente'', Some [])
   \<and> fst (process_video_by_visit_client_id videos_config upload_lost_env 1 clip_world)
       = Inr \<lparr>visit_client_id = 1, original_filename = ''clip.mp4'',
              processed_filename = ''clip_processed.mp4'',
              processed_url = Some [], status = ''Procesado''\<rparr>
   \<and> rows (snd (process_video_by_visit_client_id videos_config upload_lost_env 1 clip_world)) 1
       = Some (clip_record\<lparr>filename_processed := Some ''clip_processed.mp4'',
               filename_url_processed := Some [],
               file_status := Some ''Procesado'', updated_at := 100\<rparr>)"
  using get_file_url_returns [of cfg en fname folder]
    get_file_url_fallback [of cfg en fname target e]
    get_file_url_sign_fails [of cfg en target fname e']
    get_file_url_blob_missing [of cfg en target fname]
    run_upload_lost
  by blast

text \<open>
  Claim C10 at two stores: one on which signing raises, where the public URL of the
  default bucket and folder comes back, and one that reports the blob absent, where the
  empty string comes back.
\<close>

theorem C10_access_url_never_raises_witness:
  "get_file_url_body videos_config unsigned_env ''clip_processed.mp4'' ''sales-plan''
     = Inl (OtherError ''no credentials'')
   \<and> get_file_url videos_config unsigned_env ''clip_processed.mp4'' (Some ''sales-plan'')
     = Inr ''https://storage.googleapis.com/medisupply-bucket/sales-plan/clip_processed.mp4''
   \<and> bucket videos_config upload_lost_env = Inr ()
   \<and> blob_exists upload_lost_env (''sales-plan'' @ ''/'' @ ''clip_processed.mp4'') = Inr False
   \<and> get_file_url videos_config upload_lost_env ''clip_processed.mp4'' (Some ''sales-plan'')
     = Inr []"
proof -
  have a1: "get_file_url_body videos_config unsigned_env ''clip_processed.mp4'' ''sales-plan''
     = Inl (OtherError ''no credentials'')"
    by (simp add: run_simps unsigned_env_def)
  have a2: "bucket videos_config unsigned_env = Inr ()"
    "blob_exists unsigned_env (''sales-plan'' @ ''/'' @ ''clip_processed.mp4'') = Inr True"
    "generate_signed_url unsigned_env (''sales-plan'' @ ''/'' @ ''clip_processed.mp4'')
       = Inl (OtherError ''no credentials'')"
    by (simp_all add: run_simps unsigned_env_def)
  have b1: "bucket videos_config upload_lost_env = Inr ()"
    "blob_exists upload_lost_env (''sales-plan'' @ ''/'' @ ''clip_processed.mp4'') = Inr False"
    by (simp_all add: run_simps upload_lost_env_def)
  have pu: "public_url videos_config ''sales-plan'' ''clip_processed.mp4''
      = ''https://storage.googleapis.com/medisupply-bucket/sales-plan/clip_processed.mp4''"
    by (simp add: public_url_def videos_config_def Config_def)
  from C10_access_url_never_raises [of videos_config unsigned_env "''clip_processed.mp4''"
      "Some ''sales-plan''" "''sales-plan''" "OtherError ''no credentials''"
      "OtherError ''no credentials''"] a1 a2
  have u: "get_file_url videos_config unsigned_env ''clip_processed.mp4'' (Some ''sales-plan'')
     = Inr (public_url videos_config ''sales-plan'' ''clip_processed.mp4'')"
    by blast
  from C10_access_url_never_raises [of videos_config upload_lost_env "''clip_processed.mp4''"
      "Some ''sales-plan''" "''sales-plan''" "OtherError ''no credentials''"
      "OtherError ''no credentials''"] b1
  have l: "get_file_url videos_config upload_lost_env ''clip_processed.mp4'' (Some ''sales-plan'')
     = Inr []"
    by blast
  from a1 u l b1 pu show ?thesis by simp
qed

end
